theory Spec2Isabelle
  imports Main
begin

section \<open>JavaScript values used by the client\<close>

text \<open>
  The client is TypeScript. A value of type \<open>string | null | undefined\<close> is a
  \<open>string option\<close>; it is truthy iff it is present and not the empty string. A thrown
  value is an error object with a name and a message.
\<close>

definition truthy :: "string option \<Rightarrow> bool" where
  "truthy v = (case v of None \<Rightarrow> False | Some s \<Rightarrow> s \<noteq> [])"

definition str_of :: "string option \<Rightarrow> string" where
  "str_of v = (case v of None \<Rightarrow> [] | Some s \<Rightarrow> s)"

datatype js_error = JsError (err_name: string) (err_message: string)

definition TOKEN_EXPIRED :: js_error where
  "TOKEN_EXPIRED = JsError ''Error'' ''Google API token expired''"

section \<open>The tag store\<close>

text \<open>
  The hosted store is external. Its tables are lists of rows; the columns the server
  fills in by default (row ids, timestamps) are left out. A statement sent to the store
  has one of three outcomes, chosen by the environment: it succeeds, it returns an error
  object (\<open>{ error }\<close>), or the awaited call rejects. A statement that does not succeed
  leaves its table as it was. The foreign keys of the link tables are declared
  \<open>ON DELETE CASCADE\<close> (fullbackup.sql): deleting a card deletes its links, deleting a
  tag deletes every link and log row that names it.
\<close>

record tag_link =
  l_item :: string
  l_tag :: string
  l_user :: string

record card_row =
  c_id :: string
  c_user :: string
  c_title :: string
  c_content :: string

record card_log_row =
  g_card :: string
  g_user :: string
  g_activity :: string
  g_title :: "string option"

record tag_row =
  tr_id :: string
  tr_user :: string
  tr_name :: string
  tr_type :: string
  tr_color :: string

record emails_row =
  em_id :: string
  em_user :: string

record timeline_card_row =
  k_id :: string
  k_user :: string
  k_title :: string
  k_description :: "string option"
  k_start_date :: string
  k_end_date :: "string option"

record store =
  tags :: "tag_row list"
  emails_table :: "emails_row list"
  email_tags :: "tag_link list"
  removed_email_tags_log :: "tag_link list"
  calendar_event_tags :: "tag_link list"
  timeline_custom_cards :: "timeline_card_row list"
  timeline_card_tags :: "tag_link list"
  custom_cards :: "card_row list"
  custom_card_tags :: "tag_link list"
  custom_cards_log :: "card_log_row list"

datatype outcome = Succeeds | Fails js_error | Throws js_error

definition outcome_error :: "outcome \<Rightarrow> js_error option" where
  "outcome_error oc = (case oc of Succeeds \<Rightarrow> None | Fails e \<Rightarrow> Some e | Throws e \<Rightarrow> Some e)"

record Tag =
  t_id :: string
  t_name :: string
  t_type :: string
  t_color :: string

definition link_matches :: "string \<Rightarrow> string \<Rightarrow> string \<Rightarrow> tag_link \<Rightarrow> bool" where
  "link_matches item tag user r = (l_item r = item \<and> l_tag r = tag \<and> l_user r = user)"

subsection \<open>removeTagFromEmail (supabaseClient.ts)\<close>

definition removeTagFromEmail ::
  "outcome \<Rightarrow> outcome \<Rightarrow> string \<Rightarrow> string \<Rightarrow> string \<Rightarrow> store \<Rightarrow> bool \<times> store" where
  "removeTagFromEmail deleteOutcome logOutcome userId emailId tagId db =
     (if userId = [] \<or> emailId = [] \<or> tagId = [] then (False, db)
      else case deleteOutcome of
          Throws e \<Rightarrow> (False, db)
        | Fails deleteError \<Rightarrow> (False, db)
        | Succeeds \<Rightarrow>
            (let db1 = db\<lparr>email_tags :=
                         filter (\<lambda>r. \<not> link_matches emailId tagId userId r) (email_tags db)\<rparr>
             in case logOutcome of
                 Succeeds \<Rightarrow>
                   (True, db1\<lparr>removed_email_tags_log := removed_email_tags_log db1 @
                              [\<lparr>l_item = emailId, l_tag = tagId, l_user = userId\<rparr>]\<rparr>)
               | Fails logError \<Rightarrow> (True, db1)
               | Throws e \<Rightarrow> (True, db1)))"

subsection \<open>setTagsForCalendarEvent (supabaseClient.ts), setTagsForTimelineCard (timelineClient)\<close>

text \<open>
  Both replace the tag set of one item by a delete followed by an insert, two separate
  statements (the source notes that the client has no multi-statement transaction).
  The result is the thrown error or \<open>void\<close>, with the store after the call.
\<close>

definition setTagsForCalendarEvent ::
  "outcome \<Rightarrow> outcome \<Rightarrow> string \<Rightarrow> string \<Rightarrow> string list \<Rightarrow> store
     \<Rightarrow> (js_error + unit) \<times> store" where
  "setTagsForCalendarEvent deleteOutcome insertOutcome userId eventId tagIds db =
     (if userId = [] \<or> eventId = [] then (Inr (), db)
      else case deleteOutcome of
          Throws e \<Rightarrow> (Inl e, db)
        | Fails deleteError \<Rightarrow> (Inl deleteError, db)
        | Succeeds \<Rightarrow>
            (let db1 = db\<lparr>calendar_event_tags :=
                         filter (\<lambda>r. \<not> (l_user r = userId \<and> l_item r = eventId))
                                (calendar_event_tags db)\<rparr>
             in if tagIds \<noteq> [] then
                  (let newLinks = map (\<lambda>tagId. \<lparr>l_item = eventId, l_tag = tagId,
                                               l_user = userId\<rparr>) tagIds
                   in case insertOutcome of
                       Succeeds \<Rightarrow>
                         (Inr (), db1\<lparr>calendar_event_tags := calendar_event_tags db1 @ newLinks\<rparr>)
                     | Fails insertError \<Rightarrow> (Inl insertError, db1)
                     | Throws e \<Rightarrow> (Inl e, db1))
                else (Inr (), db1)))"

definition setTagsForTimelineCard ::
  "outcome \<Rightarrow> outcome \<Rightarrow> string \<Rightarrow> string \<Rightarrow> string list \<Rightarrow> store
     \<Rightarrow> (js_error + unit) \<times> store" where
  "setTagsForTimelineCard deleteOutcome insertOutcome userId cardId tagIds db =
     (if userId = [] \<or> cardId = [] then (Inr (), db)
      else case deleteOutcome of
          Throws e \<Rightarrow> (Inl e, db)
        | Fails deleteError \<Rightarrow> (Inl deleteError, db)
        | Succeeds \<Rightarrow>
            (let db1 = db\<lparr>timeline_card_tags :=
                         filter (\<lambda>r. \<not> (l_user r = userId \<and> l_item r = cardId))
                                (timeline_card_tags db)\<rparr>
             in if tagIds \<noteq> [] then
                  (let newLinks = map (\<lambda>tagId. \<lparr>l_item = cardId, l_tag = tagId,
                                               l_user = userId\<rparr>) tagIds
                   in case insertOutcome of
                       Succeeds \<Rightarrow>
                         (Inr (), db1\<lparr>timeline_card_tags := timeline_card_tags db1 @ newLinks\<rparr>)
                     | Fails insertError \<Rightarrow> (Inl insertError, db1)
                     | Throws e \<Rightarrow> (Inl e, db1))
                else (Inr (), db1)))"

subsection \<open>createCard (cardApi)\<close>

text \<open>
  \<open>supabase.auth.getUser()\<close> yields an optional error and an optional user (here its id).
  The insert of the card returns the new row (the server chooses its id), an error, or
  neither; in the last case nothing is taken to be stored. The function has no
  \<open>try\<close>: a rejected call rejects the whole operation.
\<close>

record auth_user =
  userError :: bool
  user :: "string option"

datatype insert_returning = Returned string | NoData | InsertFails js_error | InsertThrows js_error

record CustomCard =
  cc_id :: string
  cc_user_id :: string
  cc_title :: string
  cc_content :: string
  cc_tags :: "Tag list"

definition createCard ::
  "auth_user \<Rightarrow> insert_returning \<Rightarrow> outcome \<Rightarrow> outcome \<Rightarrow> string \<Rightarrow> string \<Rightarrow> string list
     \<Rightarrow> store \<Rightarrow> (js_error + CustomCard) \<times> store" where
  "createCard auth cardInsert tagInsert logInsert title content tagIds db =
     (case user auth of
        None \<Rightarrow> (Inl (JsError ''Error'' ''User not authenticated''), db)
      | Some uid \<Rightarrow>
          if userError auth then (Inl (JsError ''Error'' ''User not authenticated''), db)
          else case cardInsert of
              InsertThrows e \<Rightarrow> (Inl e, db)
            | InsertFails createError \<Rightarrow> (Inl createError, db)
            | NoData \<Rightarrow> (Inl (JsError ''Error'' ''Card creation did not return data''), db)
            | Returned newId \<Rightarrow>
                (let db1 = db\<lparr>custom_cards := custom_cards db @
                               [\<lparr>c_id = newId, c_user = uid, c_title = title,
                                 c_content = content\<rparr>]\<rparr>;
                     tagInserts = map (\<lambda>tagId. \<lparr>l_item = newId, l_tag = tagId,
                                                l_user = uid\<rparr>) tagIds;
                     logged = (\<lambda>d. case logInsert of
                                 Succeeds \<Rightarrow>
                                   (Inr \<lparr>cc_id = newId, cc_user_id = uid, cc_title = title,
                                         cc_content = content, cc_tags = []\<rparr>,
                                    d\<lparr>custom_cards_log := custom_cards_log d @
                                         [\<lparr>g_card = newId, g_user = uid,
                                           g_activity = ''CREATED'', g_title = Some title\<rparr>]\<rparr>)
                               | Fails logError \<Rightarrow>
                                   (Inr \<lparr>cc_id = newId, cc_user_id = uid, cc_title = title,
                                         cc_content = content, cc_tags = []\<rparr>, d)
                               | Throws e \<Rightarrow> (Inl e, d))
                 in if tagIds \<noteq> [] then
                      (case tagInsert of
                         Succeeds \<Rightarrow>
                           logged (db1\<lparr>custom_card_tags := custom_card_tags db1 @ tagInserts\<rparr>)
                       | Fails tagInsertError \<Rightarrow>
                           (Inl (JsError ''Error'' (''Card created, but failed to add tags: '' @
                                                  err_message tagInsertError)), db1)
                       | Throws e \<Rightarrow> (Inl e, db1))
                    else logged db1))"

subsection \<open>Timeline cards and their tags (timelineClient)\<close>

text \<open>
  \<open>.update(...).select().single()\<close> answers with the updated row, or with the error of
  \<open>single()\<close> when no row matched; so the branch for missing data is not reached after
  an update.
\<close>

record TimelineCardInput =
  tci_title :: string
  tci_description :: "string option"
  tci_start_date :: string
  tci_end_date :: "string option"

record TimelineCardPatch =
  tcp_title :: "string option"
  tcp_description :: "string option"
  tcp_start_date :: "string option"
  tcp_end_date :: "string option option"

definition noRowReturned :: js_error where
  "noRowReturned = JsError ''PostgrestError''
                     ''JSON object requested, multiple (or no) rows returned''"

definition createTimelineCard ::
  "insert_returning \<Rightarrow> string \<Rightarrow> TimelineCardInput \<Rightarrow> store
     \<Rightarrow> (js_error + timeline_card_row) \<times> store" where
  "createTimelineCard cardInsert userId cardData db =
     (if userId = [] then
        (Inl (JsError ''Error'' ''User ID is required to create a timeline card.''), db)
      else if tci_title cardData = [] \<or> tci_start_date cardData = [] then
        (Inl (JsError ''Error'' ''Title and Start Date are required to create a timeline card.''),
         db)
      else case cardInsert of
          InsertThrows e \<Rightarrow> (Inl e, db)
        | InsertFails error \<Rightarrow> (Inl error, db)
        | NoData \<Rightarrow>
            (Inl (JsError ''Error'' ''Failed to create timeline card, no data returned.''), db)
        | Returned newId \<Rightarrow>
            (let row = \<lparr>k_id = newId, k_user = userId, k_title = tci_title cardData,
                        k_description = tci_description cardData,
                        k_start_date = tci_start_date cardData,
                        k_end_date = tci_end_date cardData\<rparr>
             in (Inr row, db\<lparr>timeline_custom_cards := timeline_custom_cards db @ [row]\<rparr>)))"

definition applyCardPatch :: "TimelineCardPatch \<Rightarrow> timeline_card_row \<Rightarrow> timeline_card_row" where
  "applyCardPatch cardData row =
     row\<lparr>k_title := (case tcp_title cardData of None \<Rightarrow> k_title row | Some t \<Rightarrow> t),
         k_description := (case tcp_description cardData of
                             None \<Rightarrow> k_description row | Some d \<Rightarrow> Some d),
         k_start_date := (case tcp_start_date cardData of
                            None \<Rightarrow> k_start_date row | Some d \<Rightarrow> d),
         k_end_date := (case tcp_end_date cardData of None \<Rightarrow> k_end_date row | Some d \<Rightarrow> d)\<rparr>"

definition updateTimelineCard ::
  "outcome \<Rightarrow> string \<Rightarrow> string \<Rightarrow> TimelineCardPatch \<Rightarrow> store
     \<Rightarrow> (js_error + timeline_card_row) \<times> store" where
  "updateTimelineCard cardUpdate userId cardId cardData db =
     (if userId = [] \<or> cardId = [] then
        (Inl (JsError ''Error'' ''User ID and Card ID are required to update a timeline card.''),
         db)
      else case cardUpdate of
          Throws e \<Rightarrow> (Inl e, db)
        | Fails error \<Rightarrow> (Inl error, db)
        | Succeeds \<Rightarrow>
            (case find (\<lambda>r. k_id r = cardId \<and> k_user r = userId) (timeline_custom_cards db) of
               None \<Rightarrow> (Inl noRowReturned, db)
             | Some row \<Rightarrow>
                 (Inr (applyCardPatch cardData row),
                  db\<lparr>timeline_custom_cards :=
                        map (\<lambda>r. if k_id r = cardId \<and> k_user r = userId
                                  then applyCardPatch cardData r else r)
                            (timeline_custom_cards db)\<rparr>)))"

definition deleteTimelineCard ::
  "outcome \<Rightarrow> string \<Rightarrow> string \<Rightarrow> store \<Rightarrow> (js_error + unit) \<times> store" where
  "deleteTimelineCard cardDelete userId cardId db =
     (if userId = [] \<or> cardId = [] then
        (Inl (JsError ''Error'' ''User ID and Card ID are required to delete a timeline card.''),
         db)
      else case cardDelete of
          Throws e \<Rightarrow> (Inl e, db)
        | Fails error \<Rightarrow> (Inl error, db)
        | Succeeds \<Rightarrow>
            (Inr (),
             if list_ex (\<lambda>r. k_id r = cardId \<and> k_user r = userId) (timeline_custom_cards db)
             then db\<lparr>timeline_custom_cards :=
                        filter (\<lambda>r. \<not> (k_id r = cardId \<and> k_user r = userId))
                               (timeline_custom_cards db),
                      timeline_card_tags :=
                        filter (\<lambda>l. l_item l \<noteq> cardId) (timeline_card_tags db)\<rparr>
             else db))"

definition deleteTimelineCardTags ::
  "outcome \<Rightarrow> string \<Rightarrow> string \<Rightarrow> store \<Rightarrow> (js_error + unit) \<times> store" where
  "deleteTimelineCardTags linkDelete userId cardId db =
     (if userId = [] \<or> cardId = [] then (Inr (), db)
      else case linkDelete of
          Throws e \<Rightarrow> (Inl e, db)
        | Fails error \<Rightarrow> (Inl error, db)
        | Succeeds \<Rightarrow>
            (Inr (), db\<lparr>timeline_card_tags :=
                           filter (\<lambda>r. \<not> (l_user r = userId \<and> l_item r = cardId))
                                  (timeline_card_tags db)\<rparr>))"

subsection \<open>deleteCalendarEventTags and deleteTag (supabaseClient.ts)\<close>

definition deleteCalendarEventTags ::
  "outcome \<Rightarrow> string \<Rightarrow> string \<Rightarrow> store \<Rightarrow> (js_error + unit) \<times> store" where
  "deleteCalendarEventTags linkDelete userId eventId db =
     (if userId = [] \<or> eventId = [] then (Inr (), db)
      else case linkDelete of
          Throws e \<Rightarrow> (Inl e, db)
        | Fails error \<Rightarrow> (Inl error, db)
        | Succeeds \<Rightarrow>
            (Inr (), db\<lparr>calendar_event_tags :=
                           filter (\<lambda>r. \<not> (l_user r = userId \<and> l_item r = eventId))
                                  (calendar_event_tags db)\<rparr>))"

text \<open>
  deleteTag first deletes the tag's email associations and then the tag. An error
  object of the first statement is logged and the function goes on; an error of the
  second makes it return false; a rejected call is caught and gives false.
\<close>

definition deleteTag :: "outcome \<Rightarrow> outcome \<Rightarrow> string \<Rightarrow> string \<Rightarrow> store \<Rightarrow> bool \<times> store" where
  "deleteTag associationsDelete tagDelete tagId userId db =
     (if tagId = [] \<or> userId = [] then (False, db)
      else case associationsDelete of
          Throws e \<Rightarrow> (False, db)
        | _ \<Rightarrow>
            (let db1 = (case associationsDelete of
                          Succeeds \<Rightarrow>
                            db\<lparr>email_tags :=
                                 filter (\<lambda>l. \<not> (l_tag l = tagId \<and> l_user l = userId))
                                        (email_tags db)\<rparr>
                        | _ \<Rightarrow> db)
             in case tagDelete of
                 Throws e \<Rightarrow> (False, db1)
               | Fails deleteTagError \<Rightarrow> (False, db1)
               | Succeeds \<Rightarrow>
                   (True,
                    if list_ex (\<lambda>r. tr_id r = tagId \<and> tr_user r = userId) (tags db1)
                    then db1\<lparr>tags := filter (\<lambda>r. \<not> (tr_id r = tagId \<and> tr_user r = userId))
                                               (tags db1),
                              email_tags := filter (\<lambda>l. l_tag l \<noteq> tagId) (email_tags db1),
                              removed_email_tags_log :=
                                filter (\<lambda>l. l_tag l \<noteq> tagId) (removed_email_tags_log db1),
                              calendar_event_tags :=
                                filter (\<lambda>l. l_tag l \<noteq> tagId) (calendar_event_tags db1),
                              timeline_card_tags :=
                                filter (\<lambda>l. l_tag l \<noteq> tagId) (timeline_card_tags db1),
                              custom_card_tags :=
                                filter (\<lambda>l. l_tag l \<noteq> tagId) (custom_card_tags db1)\<rparr>
                    else db1)))"

subsection \<open>updateCard and deleteCard (cardApi)\<close>

text \<open>
  The insert of one tag link has a fourth outcome, the unique violation (error code
  23505), which addTagToCard takes for success. \<open>Promise.all\<close> over the calls for several
  tags lets every call run and rejects when one of them rejects; \<open>promiseAll\<close> runs them
  in list order and keeps the first rejection. The tag changes of updateCard are inside
  a \<open>try\<close> whose \<open>catch\<close> only logs.
\<close>

datatype add_outcome = Added | Duplicate | AddFails js_error | AddThrows js_error

definition fetchCardTagIds :: "outcome \<Rightarrow> string \<Rightarrow> string \<Rightarrow> store \<Rightarrow> js_error + string list" where
  "fetchCardTagIds tagSelect userId cardId db =
     (if userId = [] \<or> cardId = [] then Inr []
      else case tagSelect of
          Throws e \<Rightarrow> Inl e
        | Fails error \<Rightarrow>
            Inl (JsError ''Error'' (''Failed to fetch tags for card '' @ cardId @ '': '' @
                                   err_message error))
        | Succeeds \<Rightarrow>
            Inr (map l_tag (filter (\<lambda>l. l_user l = userId \<and> l_item l = cardId)
                                   (custom_card_tags db))))"

definition addTagToCard ::
  "add_outcome \<Rightarrow> string \<Rightarrow> string \<Rightarrow> string \<Rightarrow> store \<Rightarrow> (js_error + bool) \<times> store" where
  "addTagToCard linkInsert userId cardId tagId db =
     (if userId = [] \<or> cardId = [] \<or> tagId = [] then (Inr False, db)
      else case linkInsert of
          AddThrows e \<Rightarrow> (Inl e, db)
        | Duplicate \<Rightarrow> (Inr True, db)
        | AddFails error \<Rightarrow>
            (Inl (JsError ''Error'' (''Failed to add tag '' @ tagId @ '' to card '' @ cardId @
                                    '': '' @ err_message error)), db)
        | Added \<Rightarrow>
            (Inr True, db\<lparr>custom_card_tags := custom_card_tags db @
                            [\<lparr>l_item = cardId, l_tag = tagId, l_user = userId\<rparr>]\<rparr>))"

definition removeTagFromCard ::
  "outcome \<Rightarrow> string \<Rightarrow> string \<Rightarrow> string \<Rightarrow> store \<Rightarrow> (js_error + bool) \<times> store" where
  "removeTagFromCard linkDelete userId cardId tagId db =
     (if userId = [] \<or> cardId = [] \<or> tagId = [] then (Inr False, db)
      else case linkDelete of
          Throws e \<Rightarrow> (Inl e, db)
        | Fails error \<Rightarrow>
            (Inl (JsError ''Error'' (''Failed to remove tag '' @ tagId @ '' from card '' @ cardId @
                                    '': '' @ err_message error)), db)
        | Succeeds \<Rightarrow>
            (Inr True, db\<lparr>custom_card_tags :=
                             filter (\<lambda>l. \<not> link_matches cardId tagId userId l)
                                    (custom_card_tags db)\<rparr>))"

fun promiseAll ::
  "('a \<Rightarrow> store \<Rightarrow> (js_error + bool) \<times> store) \<Rightarrow> 'a list \<Rightarrow> store \<Rightarrow> js_error option \<times> store" where
  "promiseAll call [] db = (None, db)"
| "promiseAll call (x # xs) db =
     (case call x db of
        (result, db1) \<Rightarrow>
          (case promiseAll call xs db1 of
             (rest, db2) \<Rightarrow> ((case result of Inl e \<Rightarrow> Some e | Inr v \<Rightarrow> rest), db2)))"

definition updateCard ::
  "auth_user \<Rightarrow> outcome \<Rightarrow> outcome \<Rightarrow> (string \<Rightarrow> outcome) \<Rightarrow> (string \<Rightarrow> add_outcome) \<Rightarrow> outcome
     \<Rightarrow> string \<Rightarrow> string \<Rightarrow> string \<Rightarrow> string list option \<Rightarrow> store
     \<Rightarrow> (js_error + CustomCard) \<times> store" where
  "updateCard auth cardUpdate tagSelect linkDelete linkInsert logInsert cardId title content
       tagIds db =
     (case user auth of
        None \<Rightarrow> (Inl (JsError ''Error'' ''User not authenticated''), db)
      | Some uid \<Rightarrow>
          if userError auth then (Inl (JsError ''Error'' ''User not authenticated''), db)
          else case cardUpdate of
              Throws e \<Rightarrow> (Inl e, db)
            | Fails updateError \<Rightarrow> (Inl updateError, db)
            | Succeeds \<Rightarrow>
                (case find (\<lambda>r. c_id r = cardId \<and> c_user r = uid) (custom_cards db) of
                   None \<Rightarrow> (Inl noRowReturned, db)
                 | Some row \<Rightarrow>
                     (let db1 = db\<lparr>custom_cards :=
                                    map (\<lambda>r. if c_id r = cardId \<and> c_user r = uid
                                              then r\<lparr>c_title := title, c_content := content\<rparr>
                                              else r)
                                        (custom_cards db)\<rparr>;
                          db2 =
                            (case tagIds of
                               None \<Rightarrow> db1
                             | Some ids \<Rightarrow>
                                 (case fetchCardTagIds tagSelect uid cardId db1 of
                                    Inl tagUpdateError \<Rightarrow> db1
                                  | Inr currentTagIds \<Rightarrow>
                                      (let tagsToAdd =
                                             filter (\<lambda>tagId. tagId \<notin> set currentTagIds) ids;
                                           tagsToRemove =
                                             filter (\<lambda>tagId. tagId \<notin> set ids) currentTagIds
                                       in case (if tagsToRemove \<noteq> []
                                                then promiseAll
                                                       (\<lambda>tagId. removeTagFromCard (linkDelete tagId)
                                                                   uid cardId tagId)
                                                       tagsToRemove db1
                                                else (None, db1)) of
                                            (Some tagUpdateError, dbr) \<Rightarrow> dbr
                                          | (None, dbr) \<Rightarrow>
                                              if tagsToAdd \<noteq> []
                                              then snd (promiseAll
                                                          (\<lambda>tagId. addTagToCard (linkInsert tagId)
                                                                      uid cardId tagId)
                                                          tagsToAdd dbr)
                                              else dbr)));
                          updated = \<lparr>cc_id = cardId, cc_user_id = uid, cc_title = title,
                                     cc_content = content, cc_tags = []\<rparr>
                      in case logInsert of
                          Succeeds \<Rightarrow>
                            (Inr updated,
                             db2\<lparr>custom_cards_log := custom_cards_log db2 @
                                    [\<lparr>g_card = cardId, g_user = uid, g_activity = ''UPDATED'',
                                      g_title = Some title\<rparr>]\<rparr>)
                        | Fails logError \<Rightarrow> (Inr updated, db2)
                        | Throws e \<Rightarrow> (Inl e, db2))))"

text \<open>
  deleteCard reads the card for the log entry first; an error of that read is logged
  and ignored. \<open>cardToLog?.title || null\<close> is the title unless it is missing or empty.
\<close>

definition deleteCard ::
  "auth_user \<Rightarrow> outcome \<Rightarrow> outcome \<Rightarrow> outcome \<Rightarrow> string \<Rightarrow> store \<Rightarrow> (js_error + unit) \<times> store" where
  "deleteCard auth cardSelect cardDelete logInsert cardId db =
     (case user auth of
        None \<Rightarrow> (Inl (JsError ''Error'' ''User not authenticated''), db)
      | Some uid \<Rightarrow>
          if userError auth then (Inl (JsError ''Error'' ''User not authenticated''), db)
          else case cardSelect of
              Throws e \<Rightarrow> (Inl e, db)
            | _ \<Rightarrow>
                (let cardToLog =
                       (case cardSelect of
                          Succeeds \<Rightarrow> find (\<lambda>r. c_id r = cardId \<and> c_user r = uid) (custom_cards db)
                        | _ \<Rightarrow> None)
                 in case cardDelete of
                     Throws e \<Rightarrow> (Inl e, db)
                   | Fails deleteError \<Rightarrow> (Inl deleteError, db)
                   | Succeeds \<Rightarrow>
                       (let db1 =
                              (if list_ex (\<lambda>r. c_id r = cardId \<and> c_user r = uid) (custom_cards db)
                               then db\<lparr>custom_cards :=
                                          filter (\<lambda>r. \<not> (c_id r = cardId \<and> c_user r = uid))
                                                 (custom_cards db),
                                        custom_card_tags :=
                                          filter (\<lambda>l. l_item l \<noteq> cardId) (custom_card_tags db)\<rparr>
                               else db)
                        in case logInsert of
                            Succeeds \<Rightarrow>
                              (Inr (),
                               db1\<lparr>custom_cards_log := custom_cards_log db1 @
                                      [\<lparr>g_card = cardId, g_user = uid, g_activity = ''DELETED'',
                                        g_title = (case cardToLog of
                                                     None \<Rightarrow> None
                                                   | Some r \<Rightarrow> (if c_title r \<noteq> []
                                                                then Some (c_title r)
                                                                else None))\<rparr>]\<rparr>)
                          | Fails logError \<Rightarrow> (Inr (), db1)
                          | Throws e \<Rightarrow> (Inl e, db1))))"

subsection \<open>addTagToEmail (supabaseClient.ts) and addNewTag (Sidebar)\<close>

text \<open>
  addTagToEmail makes sure the email has a row in the table \<open>emails\<close> (the links
  refer to it) and then inserts the link; every failure makes it return false.
\<close>

definition addTagToEmail ::
  "outcome \<Rightarrow> outcome \<Rightarrow> outcome \<Rightarrow> string \<Rightarrow> string \<Rightarrow> string \<Rightarrow> store \<Rightarrow> bool \<times> store" where
  "addTagToEmail emailSelect emailInsert linkInsert userId emailId tagId db =
     (if userId = [] \<or> emailId = [] \<or> tagId = [] then (False, db)
      else case emailSelect of
          Throws e \<Rightarrow> (False, db)
        | Fails selectError \<Rightarrow> (False, db)
        | Succeeds \<Rightarrow>
            (let existingEmail = find (\<lambda>r. em_id r = emailId \<and> em_user r = userId) (emails_table db);
                 ensured =
                   (case existingEmail of
                      Some r \<Rightarrow> Some db
                    | None \<Rightarrow>
                        (case emailInsert of
                           Succeeds \<Rightarrow>
                             Some (db\<lparr>emails_table := emails_table db @
                                        [\<lparr>em_id = emailId, em_user = userId\<rparr>]\<rparr>)
                         | Fails insertError \<Rightarrow> None
                         | Throws e \<Rightarrow> None))
             in case ensured of
                  None \<Rightarrow> (False, db)
                | Some db1 \<Rightarrow>
                    (case linkInsert of
                       Succeeds \<Rightarrow>
                         (True, db1\<lparr>email_tags := email_tags db1 @
                                      [\<lparr>l_item = emailId, l_tag = tagId, l_user = userId\<rparr>]\<rparr>)
                     | Fails error \<Rightarrow> (False, db1)
                     | Throws e \<Rightarrow> (False, db1))))"

text \<open>
  addNewTag is the handler of the sidebar that creates a tag. What it shows is a toast:
  title, description, and whether it is the destructive (error) variant. The updates of
  the sidebar's own lists and dialogs after a success are left out. \<open>trim\<close> is
  \<open>String.prototype.trim\<close>. The insert ends in \<open>.single()\<close>, which answers with the new
  row or an error.
\<close>

datatype toast = Toast (toast_title: string) (toast_description: string) (destructive: bool)

datatype tag_insert = TagReturned string | TagInsertFails js_error | TagInsertThrows js_error

definition addNewTag ::
  "tag_insert \<Rightarrow> (string \<Rightarrow> string) \<Rightarrow> string option \<Rightarrow> Tag list \<Rightarrow> Tag list \<Rightarrow> string \<Rightarrow> string
     \<Rightarrow> string \<Rightarrow> store \<Rightarrow> toast option \<times> store" where
  "addNewTag tagInsert trim userId pins priorities newTagName newTagColor tagType db =
     (if tagType = ''pin'' \<and> length pins \<ge> 12 then
        (Some (Toast ''Limit Reached'' ''You can create a maximum of 12 pin tags.'' True), db)
      else if tagType = ''priority'' \<and> length priorities \<ge> 12 then
        (Some (Toast ''Limit Reached'' ''You can create a maximum of 12 priority tags.'' True), db)
      else if trim newTagName = [] then
        (Some (Toast ''Error'' ''Tag name cannot be empty'' True), db)
      else if \<not> truthy userId then (None, db)
      else case tagInsert of
          TagInsertThrows error \<Rightarrow>
            (Some (Toast ''Error'' (''Failed to create tag: '' @ err_message error) True), db)
        | TagInsertFails error \<Rightarrow>
            (Some (Toast ''Error'' (''Failed to create tag: '' @ err_message error) True), db)
        | TagReturned newId \<Rightarrow>
            (Some (Toast ''Success''
                     (''New tag '' @ [CHR 0x22] @ newTagName @ [CHR 0x22] @ '' created'') False),
             db\<lparr>tags := tags db @
                    [\<lparr>tr_id = newId, tr_user = str_of userId, tr_name = newTagName,
                      tr_type = tagType, tr_color = newTagColor\<rparr>]\<rparr>))"

section \<open>Calendar events and the activity feed\<close>

record GoogleCalendarEventDateTime =
  dateTime :: "string option"
  date :: "string option"
  timeZone :: "string option"

record GoogleCalendarEvent =
  ev_id :: string
  ev_summary :: "string option"
  ev_description :: "string option"
  ev_start :: "GoogleCalendarEventDateTime option"
  ev_end :: "GoogleCalendarEventDateTime option"
  ev_status :: "string option"
  ev_htmlLink :: "string option"
  ev_created :: "string option"
  ev_updated :: "string option"
  ev_tags :: "Tag list option"

datatype timeline_type =
    EMAIL_TAG_ADDED | EMAIL_TAG_REMOVED
  | CARD_CREATED | CARD_UPDATED | CARD_DELETED
  | CALENDAR_EVENT_CREATED | CALENDAR_EVENT_UPDATED | CALENDAR_EVENT_DELETED

record calendar_activity_data =
  eventId :: string
  eventSummary :: string
  htmlLink :: "string option"

record TimelineEvent =
  te_id :: string
  te_type :: timeline_type
  te_timestamp :: string
  te_data :: calendar_activity_data

text \<open>
  \<open>new Date(s).getTime()\<close> is a parameter \<open>getTime\<close>: the time value in milliseconds, or
  \<open>None\<close> for NaN (an unparsable string). A difference with NaN is NaN and \<open>NaN < 5000\<close>
  is false. Time values are integers, so the comparison with 5000 is exact.
\<close>

definition diff_lt :: "int option \<Rightarrow> int option \<Rightarrow> int \<Rightarrow> bool" where
  "diff_lt a b bound = (case a of None \<Rightarrow> False
                        | Some x \<Rightarrow> (case b of None \<Rightarrow> False | Some y \<Rightarrow> x - y < bound))"

text \<open>The callback of \<open>events.map\<close> in fetchRecentCalendarActivity; \<open>None\<close> is its \<open>null\<close>.\<close>

definition classifyCalendarEvent ::
  "(string \<Rightarrow> int option) \<Rightarrow> string \<Rightarrow> GoogleCalendarEvent \<Rightarrow> TimelineEvent option" where
  "classifyCalendarEvent getTime nowISO event =
     (let decided =
        (if ev_status event = Some ''cancelled'' then
           Some (CALENDAR_EVENT_DELETED,
                 if truthy (ev_updated event) then str_of (ev_updated event) else nowISO)
         else if truthy (ev_created event) \<and> truthy (ev_updated event) \<and>
                 diff_lt (getTime (str_of (ev_updated event)))
                         (getTime (str_of (ev_created event))) 5000 then
           Some (CALENDAR_EVENT_CREATED, str_of (ev_created event))
         else if truthy (ev_updated event) then
           Some (CALENDAR_EVENT_UPDATED, str_of (ev_updated event))
         else None)
      in case decided of
           None \<Rightarrow> None
         | Some (eventType, timestamp) \<Rightarrow>
             Some \<lparr>te_id = ''cal-'' @ ev_id event @ ''-'' @ timestamp,
                   te_type = eventType,
                   te_timestamp = timestamp,
                   te_data = \<lparr>eventId = ev_id event,
                              eventSummary = (if truthy (ev_summary event)
                                              then str_of (ev_summary event) else ''(No Title)''),
                              htmlLink = ev_htmlLink event\<rparr>\<rparr>)"

section \<open>The remote mail and calendar services\<close>

text \<open>
  The Google session comes from \<open>supabase.auth.getSession()\<close>. A request to the mail or
  calendar service is identified by the parameters its URL encodes; the environment
  answers a request either by rejecting the \<open>fetch\<close> promise (a network error) or with a
  response: the HTTP status, the status text, the \<open>error.message\<close> of a JSON error body
  if there is one, and the parsed JSON of the body. \<open>response.ok\<close> is, by the Fetch
  standard, a status from 200 to 299.
\<close>

record session_info =
  sessionError :: bool
  provider_token :: "string option"

record 'a response =
  status :: nat
  statusText :: string
  errorMessage :: "string option"
  json :: 'a

datatype 'a fetch_result = Rejected js_error | Responded "'a response"

definition ok :: "'a response \<Rightarrow> bool" where
  "ok r = (200 \<le> status r \<and> status r \<le> 299)"

fun digits :: "nat \<Rightarrow> string" where
  "digits n = (if n < 10 then [char_of (48 + n)]
               else digits (n div 10) @ [char_of (48 + n mod 10)])"

definition getGmailAccessToken :: "session_info \<Rightarrow> js_error + string option" where
  "getGmailAccessToken s =
     (if sessionError s then Inr None
      else if \<not> truthy (provider_token s) then Inl TOKEN_EXPIRED
      else Inr (provider_token s))"

definition getCalendarAccessToken :: "session_info \<Rightarrow> js_error + string option" where
  "getCalendarAccessToken s =
     (if sessionError s then Inr None
      else if \<not> truthy (provider_token s) then Inl TOKEN_EXPIRED
      else Inr (provider_token s))"

subsection \<open>Mail: the message list and the message details (supabaseClient.ts)\<close>

datatype page_token = Undefined | Null | Token string

definition token_param :: "page_token \<Rightarrow> string option" where
  "token_param t = (case t of Token s \<Rightarrow> (if s \<noteq> [] then Some s else None) | _ \<Rightarrow> None)"

record list_request =
  rq_maxResults :: nat
  rq_labelIds :: "string option"
  rq_pageToken :: "string option"
  rq_q :: "string option"

record GmailMessageMetadata =
  md_id :: string
  md_threadId :: string

record list_body =
  lb_messages :: "GmailMessageMetadata list option"
  lb_nextPageToken :: "string option"

record FetchEmailMetadataResult =
  messages :: "GmailMessageMetadata list"
  nextPageToken :: "string option"

record GmailFullMessage =
  m_id :: string
  m_threadId :: string
  m_snippet :: string
  m_labelIds :: "string list option"
  m_internalDate :: "string option"
  m_headers :: "(string \<times> string) list option"

text \<open>
  The list URL carries \<open>maxResults\<close>, an optional label filter, and \<open>pageToken\<close> only when
  the given token is truthy; without it the service returns the first page.
\<close>

definition metadataPageRequest :: "nat \<Rightarrow> string option \<Rightarrow> page_token \<Rightarrow> list_request" where
  "metadataPageRequest maxResults label pageToken =
     \<lparr>rq_maxResults = maxResults, rq_labelIds = label,
      rq_pageToken = token_param pageToken, rq_q = None\<rparr>"

text \<open>
  In fetchEmailMetadataPage the error that carries the server's message is thrown inside
  the \<open>try\<close> whose \<open>catch (parseError)\<close> ignores everything, so a response that is not
  ok and not 401/403 always ends in the error built from the status alone.
\<close>

definition fetchEmailMetadataPage ::
  "session_info \<Rightarrow> (list_request \<Rightarrow> string option \<Rightarrow> list_body fetch_result)
     \<Rightarrow> page_token \<Rightarrow> nat \<Rightarrow> js_error + FetchEmailMetadataResult" where
  "fetchEmailMetadataPage sess listMessages pageToken maxResults =
     (case getGmailAccessToken sess of
        Inl e \<Rightarrow> Inl e
      | Inr accessToken \<Rightarrow>
          (case listMessages (metadataPageRequest maxResults None pageToken) accessToken of
             Rejected error \<Rightarrow> Inl error
           | Responded r \<Rightarrow>
               if \<not> ok r then
                 (if status r = 401 \<or> status r = 403 then Inl TOKEN_EXPIRED
                  else Inl (JsError ''Error''
                              (''Failed to fetch email metadata: '' @ digits (status r))))
               else Inr \<lparr>messages = (case lb_messages (json r) of None \<Rightarrow> [] | Some ms \<Rightarrow> ms),
                         nextPageToken = lb_nextPageToken (json r)\<rparr>))"

definition fetchImportantEmailMetadataPage ::
  "session_info \<Rightarrow> (list_request \<Rightarrow> string option \<Rightarrow> list_body fetch_result)
     \<Rightarrow> page_token \<Rightarrow> nat \<Rightarrow> js_error + FetchEmailMetadataResult" where
  "fetchImportantEmailMetadataPage sess listMessages pageToken maxResults =
     (case getGmailAccessToken sess of
        Inl e \<Rightarrow> Inl e
      | Inr accessToken \<Rightarrow>
          (case listMessages (metadataPageRequest maxResults (Some ''IMPORTANT'') pageToken)
                  accessToken of
             Rejected error \<Rightarrow> Inl error
           | Responded r \<Rightarrow>
               if \<not> ok r then
                 (if status r = 401 \<or> status r = 403 then Inl TOKEN_EXPIRED
                  else Inl (JsError ''Error''
                              (''Failed to fetch important email metadata: '' @ digits (status r))))
               else Inr \<lparr>messages = (case lb_messages (json r) of None \<Rightarrow> [] | Some ms \<Rightarrow> ms),
                         nextPageToken = lb_nextPageToken (json r)\<rparr>))"

definition searchGmailMessages ::
  "session_info \<Rightarrow> (list_request \<Rightarrow> string option \<Rightarrow> list_body fetch_result)
     \<Rightarrow> string \<Rightarrow> nat \<Rightarrow> js_error + FetchEmailMetadataResult" where
  "searchGmailMessages sess listMessages query maxResults =
     (case getGmailAccessToken sess of
        Inl e \<Rightarrow> Inl e
      | Inr accessToken \<Rightarrow>
          if query = [] then Inl (JsError ''Error'' ''Search query cannot be empty.'')
          else
          (case listMessages \<lparr>rq_maxResults = maxResults, rq_labelIds = None,
                              rq_pageToken = None, rq_q = Some query\<rparr> accessToken of
             Rejected error \<Rightarrow> Inl error
           | Responded r \<Rightarrow>
               if \<not> ok r then
                 (if status r = 401 \<or> status r = 403 then Inl TOKEN_EXPIRED
                  else Inl (JsError ''Error''
                              (''Failed to search messages: '' @
                               (if truthy (errorMessage r) then str_of (errorMessage r)
                                else statusText r))))
               else Inr \<lparr>messages = (case lb_messages (json r) of None \<Rightarrow> [] | Some ms \<Rightarrow> ms),
                         nextPageToken = lb_nextPageToken (json r)\<rparr>))"

text \<open>
  fetchFullEmailDetails issues one request per id. Each request promise is
  \<open>fetch(url).then(handler).catch(() => null)\<close>: \<open>detailThen\<close> is the handler, which
  throws on 401/403 and yields null on any other failure; \<open>detailCatch\<close> is the
  \<open>.catch\<close> chained after it, which turns every rejection, the handler's throw included,
  into null. So no request promise rejects and \<open>Promise.all\<close> always fulfils. The
  function returns the ids it requested and its result.
\<close>

definition detailThen :: "GmailFullMessage response \<Rightarrow> js_error + GmailFullMessage option" where
  "detailThen res =
     (if \<not> ok res then
        (if status res = 401 \<or> status res = 403 then Inl TOKEN_EXPIRED else Inr None)
      else Inr (Some (json res)))"

definition detailCatch :: "js_error + GmailFullMessage option \<Rightarrow> GmailFullMessage option" where
  "detailCatch p = (case p of Inl fetchError \<Rightarrow> None | Inr v \<Rightarrow> v)"

definition detailRequest ::
  "(string \<Rightarrow> string option \<Rightarrow> GmailFullMessage fetch_result) \<Rightarrow> string option \<Rightarrow> string
     \<Rightarrow> GmailFullMessage option" where
  "detailRequest getMessage accessToken i =
     detailCatch (case getMessage i accessToken of
                    Rejected e \<Rightarrow> Inl e
                  | Responded res \<Rightarrow> detailThen res)"

definition fetchFullEmailDetails ::
  "session_info \<Rightarrow> (string \<Rightarrow> string option \<Rightarrow> GmailFullMessage fetch_result) \<Rightarrow> string list
     \<Rightarrow> string list \<times> (js_error + GmailFullMessage list)" where
  "fetchFullEmailDetails sess getMessage messageIds =
     (case getGmailAccessToken sess of
        Inl e \<Rightarrow> ([], Inl e)
      | Inr accessToken \<Rightarrow>
          if messageIds = [] then ([], Inr [])
          else (messageIds,
                Inr (List.map_filter (detailRequest getMessage accessToken) messageIds)))"

subsection \<open>Mail: threads, sending and label changes (supabaseClient.ts)\<close>





definition getHeaderValue :: "(string \<Rightarrow> string) \<Rightarrow> (string \<times> string) list \<Rightarrow> string \<Rightarrow> string" where
  "getHeaderValue toLowerCase headers name =
     (case find (\<lambda>h. toLowerCase (fst h) = toLowerCase name) headers of
        None \<Rightarrow> [] | Some header \<Rightarrow> snd header)"






subsection \<open>Calendar: events with their tags (googleCalendarClient, supabaseClient.ts)\<close>

text \<open>
  The store answers a select with \<open>{ data, error }\<close> or the call rejects.
  fetchCalendarEventTagsForEventIds receives rows \<open>(event_id, tags)\<close> (the joined tag may
  be missing) and groups the tags by event id; it catches its own errors and returns an
  empty map.
\<close>

datatype 'a query_result = QData "'a option" | QError js_error | QThrows js_error

definition fetchCalendarEventTagsForEventIds ::
  "(string \<Rightarrow> string list \<Rightarrow> (string \<times> Tag option) list query_result) \<Rightarrow> string \<Rightarrow> string list
     \<Rightarrow> (string \<rightharpoonup> Tag list)" where
  "fetchCalendarEventTagsForEventIds eventTagsQuery userId eventIds =
     (if userId = [] \<or> eventIds = [] then Map.empty
      else case eventTagsQuery userId eventIds of
          QThrows e \<Rightarrow> Map.empty
        | QError e \<Rightarrow> Map.empty
        | QData None \<Rightarrow> Map.empty
        | QData (Some rows) \<Rightarrow>
            foldl (\<lambda>tagsByEventId item.
                     case snd item of
                       None \<Rightarrow> tagsByEventId
                     | Some tag \<Rightarrow>
                         if fst item = [] then tagsByEventId
                         else tagsByEventId(fst item \<mapsto>
                                (case tagsByEventId (fst item) of None \<Rightarrow> [] | Some ts \<Rightarrow> ts)
                                @ [tag]))
                  Map.empty rows)"

datatype events_request =
    EventsWindow string string string
  | EventsRecent string nat

definition mergeEventTags :: "(string \<rightharpoonup> Tag list) \<Rightarrow> GoogleCalendarEvent \<Rightarrow> GoogleCalendarEvent" where
  "mergeEventTags tagsMap event =
     event\<lparr>ev_tags := Some (case tagsMap (ev_id event) of None \<Rightarrow> [] | Some ts \<Rightarrow> ts)\<rparr>"

definition fetchCalendarEvents ::
  "session_info \<Rightarrow> (events_request \<Rightarrow> string option \<Rightarrow> GoogleCalendarEvent list option fetch_result)
     \<Rightarrow> (string \<Rightarrow> string list \<Rightarrow> (string \<times> Tag option) list query_result)
     \<Rightarrow> string \<Rightarrow> string \<Rightarrow> string \<Rightarrow> string \<Rightarrow> js_error + GoogleCalendarEvent list" where
  "fetchCalendarEvents sess listEvents eventTagsQuery userId calendarId timeMin timeMax =
     (case getCalendarAccessToken sess of
        Inl e \<Rightarrow> Inl e
      | Inr accessToken \<Rightarrow>
          if userId = [] then Inl (JsError ''Error'' ''User ID is required.'')
          else
          (case listEvents (EventsWindow calendarId timeMin timeMax) accessToken of
             Rejected error \<Rightarrow> Inl error
           | Responded r \<Rightarrow>
               if \<not> ok r then
                 (if status r = 401 \<or> status r = 403 then Inl TOKEN_EXPIRED
                  else Inl (JsError ''Error''
                              (''Failed to fetch events: '' @
                               (if truthy (errorMessage r) then str_of (errorMessage r)
                                else statusText r))))
               else
                 (let events = (case json r of None \<Rightarrow> [] | Some items \<Rightarrow> items)
                  in if events \<noteq> [] then
                       (let eventIds = map ev_id events;
                            tagsMap = fetchCalendarEventTagsForEventIds eventTagsQuery userId eventIds
                        in Inr (map (mergeEventTags tagsMap) events))
                     else Inr events)))"


subsection \<open>Calendar: creating, updating and deleting events (googleCalendarClient)\<close>






section \<open>The tag filter engine\<close>

datatype FilterMode = ModeAny | ModeAll


subsection \<open>Emails: fetchEmailsByTags (tagFiltering.ts)\<close>

text \<open>
  A row of the query result is an email of the \<open>emails\<close> table with its embedded
  \<open>email_tags\<close> (the tag ids). A JavaScript \<open>Map\<close> built by \<open>set\<close> on absent keys only
  is an association list in insertion order.
\<close>

record email_row =
  r_email_id :: string
  r_user_id :: string
  r_thread_id :: "string option"
  r_is_starred :: "bool option"
  r_created_at :: string
  r_updated_at :: string
  r_email_tags :: "string list"

record Email =
  e_email_id :: string
  e_user_id :: string
  e_thread_id :: "string option"
  e_is_starred :: "bool option"
  e_created_at :: string
  e_updated_at :: string
  e_subject :: "string option"
  e_snippet :: "string option"
  e_from :: "string option"
  e_date :: "string option"

definition baseEmailData :: "email_row \<Rightarrow> Email" where
  "baseEmailData email =
     \<lparr>e_email_id = r_email_id email, e_user_id = r_user_id email,
      e_thread_id = r_thread_id email, e_is_starred = r_is_starred email,
      e_created_at = r_created_at email, e_updated_at = r_updated_at email,
      e_subject = None, e_snippet = None, e_from = None, e_date = None\<rparr>"

definition has :: "(string \<times> 'v) list \<Rightarrow> string \<Rightarrow> bool" where
  "has m k = (k \<in> set (map fst m))"

definition matchStep ::
  "FilterMode \<Rightarrow> string list \<Rightarrow> email_row list \<Rightarrow> (string \<times> Email) list \<Rightarrow> email_row
     \<Rightarrow> (string \<times> Email) list" where
  "matchStep mode tagIds emailsData matchingEmailsMap email =
     (if mode = ModeAll then
        (if has matchingEmailsMap (r_email_id email) then matchingEmailsMap
         else
           (let allTagsForThisEmail =
                  concat (map r_email_tags
                            (filter (\<lambda>e. r_email_id e = r_email_id email) emailsData));
                uniqueTagsForThisEmail = set allTagsForThisEmail
            in if list_all (\<lambda>targetTagId. targetTagId \<in> uniqueTagsForThisEmail) tagIds
               then matchingEmailsMap @ [(r_email_id email, baseEmailData email)]
               else matchingEmailsMap))
      else
        (if \<not> has matchingEmailsMap (r_email_id email)
         then matchingEmailsMap @ [(r_email_id email, baseEmailData email)]
         else matchingEmailsMap))"

definition matchingEmails ::
  "FilterMode \<Rightarrow> string list \<Rightarrow> email_row list \<Rightarrow> (string \<times> Email) list" where
  "matchingEmails mode tagIds emailsData = foldl (matchStep mode tagIds emailsData) [] emailsData"

definition mergeEmailDetails ::
  "(string \<Rightarrow> string) \<Rightarrow> (string \<rightharpoonup> GmailFullMessage) \<Rightarrow> string \<times> Email \<Rightarrow> Email" where
  "mergeEmailDetails toLowerCase detailsMap entry =
     (let emailId = fst entry; baseData = snd entry
      in case detailsMap emailId of
           None \<Rightarrow> baseData\<lparr>e_subject := None, e_snippet := None, e_from := None, e_date := None\<rparr>
         | Some details \<Rightarrow>
             (let headers = (case m_headers details of None \<Rightarrow> [] | Some hs \<Rightarrow> hs)
              in baseData\<lparr>e_thread_id := (if m_threadId details \<noteq> [] then Some (m_threadId details)
                                            else e_thread_id baseData),
                          e_subject := Some (getHeaderValue toLowerCase headers ''Subject''),
                          e_snippet := Some (m_snippet details),
                          e_from := Some (getHeaderValue toLowerCase headers ''From''),
                          e_date := Some (getHeaderValue toLowerCase headers ''Date'')\<rparr>))"

text \<open>
  fetchEmailsByTags returns the ids for which it requested details, and its result.
  Only the presence of the user is checked after \<open>getUser()\<close>.
\<close>

definition fetchEmailsByTags ::
  "auth_user \<Rightarrow> (string \<Rightarrow> string list \<Rightarrow> email_row list query_result) \<Rightarrow> session_info
     \<Rightarrow> (string \<Rightarrow> string option \<Rightarrow> GmailFullMessage fetch_result) \<Rightarrow> (string \<Rightarrow> string)
     \<Rightarrow> string list \<Rightarrow> FilterMode \<Rightarrow> string list \<times> (js_error + Email list)" where
  "fetchEmailsByTags auth emailsQuery sess getMessage toLowerCase tagIds mode =
     (case user auth of
        None \<Rightarrow> ([], Inl (JsError ''Error'' ''User not authenticated''))
      | Some uid \<Rightarrow>
          if tagIds = [] then ([], Inr [])
          else case emailsQuery uid tagIds of
              QThrows e \<Rightarrow> ([], Inl e)
            | QError emailsError \<Rightarrow> ([], Inl emailsError)
            | QData None \<Rightarrow> ([], Inr [])
            | QData (Some emailsData) \<Rightarrow>
                if emailsData = [] then ([], Inr [])
                else
                  (let matchingEmailsMap = matchingEmails mode tagIds emailsData;
                       matchingEmailIds = map fst matchingEmailsMap
                   in if matchingEmailIds = [] then ([], Inr [])
                      else case fetchFullEmailDetails sess getMessage matchingEmailIds of
                          (requested, Inl e) \<Rightarrow> (requested, Inl e)
                        | (requested, Inr emailDetailsList) \<Rightarrow>
                            (let detailsMap = foldl (\<lambda>acc detail. acc(m_id detail \<mapsto> detail))
                                                    Map.empty emailDetailsList
                             in (requested,
                                 Inr (map (mergeEmailDetails toLowerCase detailsMap)
                                          matchingEmailsMap)))))"

text \<open>
  The query itself runs in the store. Its meaning, for a table \<open>emails\<close> in which every
  row carries all the tag ids linked to it: \<open>email_tags!inner(tag_id)\<close> filtered by
  \<open>.in('email_tags.tag_id', tagIds)\<close> and \<open>.eq('user_id', userId)\<close> returns the user's
  emails that have at least one link with a tag in \<open>tagIds\<close>, each with exactly its
  matching links embedded.
\<close>

definition emailsInnerJoin :: "email_row list \<Rightarrow> string \<Rightarrow> string list \<Rightarrow> email_row list" where
  "emailsInnerJoin emails userId tagIds =
     map (\<lambda>r. r\<lparr>r_email_tags := filter (\<lambda>t. t \<in> set tagIds) (r_email_tags r)\<rparr>)
         (filter (\<lambda>r. r_user_id r = userId \<and> list_ex (\<lambda>t. t \<in> set tagIds) (r_email_tags r))
                 emails)"


subsection \<open>Calendar events: fetchCalendarEventsByTags (tagFiltering.ts)\<close>

definition eventPasses :: "string list \<Rightarrow> FilterMode \<Rightarrow> GoogleCalendarEvent \<Rightarrow> bool" where
  "eventPasses tagIds mode event =
     (let eventTagIds =
            set (filter (\<lambda>i. i \<noteq> [])
                   (map t_id (case ev_tags event of None \<Rightarrow> [] | Some ts \<Rightarrow> ts)))
      in if mode = ModeAll then list_all (\<lambda>targetTagId. targetTagId \<in> eventTagIds) tagIds
         else list_ex (\<lambda>targetTagId. targetTagId \<in> eventTagIds) tagIds)"

text \<open>The time window (one month back, three months ahead of the clock) is a parameter.\<close>

definition fetchCalendarEventsByTags ::
  "auth_user \<Rightarrow> session_info
     \<Rightarrow> (events_request \<Rightarrow> string option \<Rightarrow> GoogleCalendarEvent list option fetch_result)
     \<Rightarrow> (string \<Rightarrow> string list \<Rightarrow> (string \<times> Tag option) list query_result)
     \<Rightarrow> string \<Rightarrow> string \<Rightarrow> string list \<Rightarrow> FilterMode \<Rightarrow> js_error + GoogleCalendarEvent list" where
  "fetchCalendarEventsByTags auth sess listEvents eventTagsQuery timeMin timeMax tagIds mode =
     (case user auth of
        None \<Rightarrow> Inl (JsError ''Error'' ''User not authenticated'')
      | Some uid \<Rightarrow>
          if tagIds = [] then Inr []
          else (case fetchCalendarEvents sess listEvents eventTagsQuery uid ''primary''
                       timeMin timeMax of
                  Inl error \<Rightarrow> Inl error
                | Inr allRelevantEvents \<Rightarrow>
                    Inr (filter (eventPasses tagIds mode) allRelevantEvents)))"

subsection \<open>Project cards: filteredCardsForDisplay (TimelinePage)\<close>

record TimelineCard =
  tc_id :: string
  tc_user_id :: string
  tc_title :: string
  tc_description :: "string option"
  tc_start_date :: string
  tc_end_date :: "string option"
  tc_created_at :: string
  tc_tags :: "Tag list"

fun startsWith :: "string \<Rightarrow> string \<Rightarrow> bool" where
  "startsWith s [] = True"
| "startsWith [] (c # cs) = False"
| "startsWith (x # xs) (c # cs) = (x = c \<and> startsWith xs cs)"

fun str_includes :: "string \<Rightarrow> string \<Rightarrow> bool" where
  "str_includes [] sub = (sub = [])"
| "str_includes (x # xs) sub = (startsWith (x # xs) sub \<or> str_includes xs sub)"

text \<open>
  \<open>matchesSearch\<close> is the constant of that name in the filter callback; \<open>!globalSearchTerm\<close>
  is true of the empty string only.
\<close>

definition matchesSearch :: "(string \<Rightarrow> string) \<Rightarrow> string \<Rightarrow> TimelineCard \<Rightarrow> bool" where
  "matchesSearch toLowerCase globalSearchTerm c =
     (let searchTermLower = toLowerCase globalSearchTerm
      in globalSearchTerm = [] \<or>
         str_includes (toLowerCase (tc_title c)) searchTermLower \<or>
         (truthy (tc_description c) \<and>
          str_includes (toLowerCase (str_of (tc_description c))) searchTermLower) \<or>
         list_ex (\<lambda>tag. str_includes (toLowerCase (t_name tag)) searchTermLower) (tc_tags c))"

definition filteredCardsForDisplay ::
  "(string \<Rightarrow> string) \<Rightarrow> TimelineCard list \<Rightarrow> string \<Rightarrow> string list \<Rightarrow> FilterMode
     \<Rightarrow> TimelineCard list" where
  "filteredCardsForDisplay toLowerCase customTimelineCards globalSearchTerm selectedFilterTagIds
       tagFilterMode =
     filter (\<lambda>card.
        if \<not> matchesSearch toLowerCase globalSearchTerm card then False
        else if selectedFilterTagIds = [] then True
        else
          (let cardTagIds = set (map t_id (tc_tags card))
           in if tagFilterMode = ModeAny
              then list_ex (\<lambda>filterTagId. filterTagId \<in> cardTagIds) selectedFilterTagIds
              else list_all (\<lambda>filterTagId. filterTagId \<in> cardTagIds) selectedFilterTagIds))
       customTimelineCards"

section \<open>The email list view (EmailsList)\<close>

subsection \<open>Items, the store data of a page, and the merge\<close>

record EmailItem =
  it_id :: string
  it_threadId :: string
  it_subject :: string
  it_sender :: string
  it_senderAddress :: string
  it_excerpt :: string
  it_date :: string
  it_dateObj :: "int option"
  it_read :: bool
  it_starred :: bool
  it_tags :: "Tag list"

record SupabaseEmailData =
  sd_email_id :: string
  sd_is_starred :: bool
  sd_tags :: "Tag list"

text \<open>
  A row of the \<open>emails\<close> select of fetchSupabaseEmailData embeds its \<open>email_tags\<close>; the
  joined tag of each arrives as nothing, as one object, or as an array.
\<close>

datatype nested_tag = NoTag | TagObject Tag | TagArray "Tag list"

record supabase_row =
  sr_email_id :: string
  sr_is_starred :: "bool option"
  sr_email_tags :: "nested_tag list"

definition tagOfLink :: "nested_tag \<Rightarrow> Tag option" where
  "tagOfLink emailTag =
     (let tagObject = (case emailTag of
                         NoTag \<Rightarrow> None
                       | TagObject t \<Rightarrow> Some t
                       | TagArray ts \<Rightarrow> (case ts of [] \<Rightarrow> None | t # rest \<Rightarrow> Some t))
      in case tagObject of
           None \<Rightarrow> None
         | Some t \<Rightarrow> if t_id t \<noteq> [] then Some t else None)"

definition fetchSupabaseEmailData ::
  "(string \<Rightarrow> string list \<Rightarrow> supabase_row list query_result) \<Rightarrow> string \<Rightarrow> string list
     \<Rightarrow> SupabaseEmailData list" where
  "fetchSupabaseEmailData supabaseQuery userId emailIds =
     (if userId = [] \<or> emailIds = [] then []
      else case supabaseQuery userId emailIds of
          QThrows e \<Rightarrow> []
        | QError e \<Rightarrow> []
        | QData d \<Rightarrow>
            map (\<lambda>email. \<lparr>sd_email_id = sr_email_id email,
                           sd_is_starred = (case sr_is_starred email of None \<Rightarrow> False | Some b \<Rightarrow> b),
                           sd_tags = List.map_filter tagOfLink (sr_email_tags email)\<rparr>)
                (case d of None \<Rightarrow> [] | Some rows \<Rightarrow> rows))"

text \<open>
  The helpers that only format what is displayed (the sender regex, date parsing and
  the locale-dependent date format) and \<open>String.prototype.toLowerCase\<close> are parameters.
\<close>

record helpers =
  toLowerCase :: "string \<Rightarrow> string"
  parseSender :: "string \<Rightarrow> string \<times> string"
  parseDate :: "string \<Rightarrow> int option"
  formatDate :: "int option \<Rightarrow> string"

definition getHeader :: "helpers \<Rightarrow> (string \<times> string) list option \<Rightarrow> string \<Rightarrow> string" where
  "getHeader h headers name =
     (case headers of
        None \<Rightarrow> []
      | Some hs \<Rightarrow> (case find (\<lambda>x. toLowerCase h (fst x) = toLowerCase h name) hs of
                      None \<Rightarrow> [] | Some header \<Rightarrow> snd header))"

definition emailItemOfMessage :: "helpers \<Rightarrow> (string \<rightharpoonup> SupabaseEmailData) \<Rightarrow> GmailFullMessage \<Rightarrow> EmailItem" where
  "emailItemOfMessage h supabaseMap msg =
     (let supabaseDetail = supabaseMap (m_id msg);
          senderInfo = parseSender h (getHeader h (m_headers msg) ''From'');
          dateObj = parseDate h (getHeader h (m_headers msg) ''Date'')
      in \<lparr>it_id = m_id msg,
          it_threadId = m_threadId msg,
          it_subject = (if getHeader h (m_headers msg) ''Subject'' \<noteq> []
                        then getHeader h (m_headers msg) ''Subject'' else ''(No Subject)''),
          it_sender = fst senderInfo,
          it_senderAddress = snd senderInfo,
          it_excerpt = m_snippet msg,
          it_date = formatDate h dateObj,
          it_dateObj = dateObj,
          it_read = (\<not> (case m_labelIds msg of None \<Rightarrow> True | Some ls \<Rightarrow> ''UNREAD'' \<in> set ls)),
          it_starred = (case supabaseDetail of None \<Rightarrow> False | Some d \<Rightarrow> sd_is_starred d),
          it_tags = (case supabaseDetail of None \<Rightarrow> [] | Some d \<Rightarrow> sd_tags d)\<rparr>)"

text \<open>\<open>new Map(pairs)\<close> and repeated \<open>set\<close>: a later entry for a key replaces an earlier one.\<close>

definition mapOfEntries :: "(string \<times> 'v) list \<Rightarrow> (string \<rightharpoonup> 'v)" where
  "mapOfEntries entries = foldl (\<lambda>m kv. m(fst kv \<mapsto> snd kv)) Map.empty entries"

definition processAndMergeEmails ::
  "helpers \<Rightarrow> string list \<Rightarrow> GmailFullMessage list \<Rightarrow> SupabaseEmailData list
     \<Rightarrow> (string \<rightharpoonup> EmailItem) \<Rightarrow> EmailItem list \<times> (string \<rightharpoonup> EmailItem)" where
  "processAndMergeEmails h messageIds fetchedGmailMessages supabaseData currentCache =
     (let supabaseMap = mapOfEntries (map (\<lambda>d. (sd_email_id d, d)) supabaseData);
          newCacheEntries = mapOfEntries (map (\<lambda>msg. (m_id msg, emailItemOfMessage h supabaseMap msg))
                                              fetchedGmailMessages);
          updatedCache = currentCache ++ newCacheEntries;
          processedEmails = List.map_filter updatedCache messageIds
      in (processedEmails, updatedCache))"

subsection \<open>State, URL parameters and environment\<close>

text \<open>
  The React state of the component together with its four refs and the route it last
  navigated to. \<open>pageToken\<close> is \<open>string | null | undefined\<close>.
\<close>

record list_state =
  allEmails :: "EmailItem list"
  emailCache :: "string \<rightharpoonup> EmailItem"
  pageToken :: page_token
  nextPageTokenS :: "string option"
  prevPageTokens :: "string list"
  isLoading :: bool
  errorS :: "string option"
  selectedEmails :: "string list"
  selectAll :: bool
  activeTab :: string
  refreshKey :: nat
  pageTokenRef :: page_token
  activeFilterNameRef :: "string option"
  searchQueryRef :: "string option"
  filterTagsParamRef :: "string option"
  navigatedTo :: "string option"

record url_params =
  p_tag :: "string option"
  p_priority :: "string option"
  p_q :: "string option"
  p_tags :: "string option"
  p_mode :: "string option"
  p_threadId :: "string option"

definition activeFilterName :: "url_params \<Rightarrow> string option" where
  "activeFilterName p = (if truthy (p_tag p) then p_tag p else p_priority p)"

definition isTagView :: "url_params \<Rightarrow> bool" where
  "isTagView p = truthy (activeFilterName p)"

definition isSearchView :: "url_params \<Rightarrow> bool" where
  "isSearchView p = truthy (p_q p)"

definition isNewTagFilterView :: "url_params \<Rightarrow> bool" where
  "isNewTagFilterView p = truthy (p_tags p)"

text \<open>
  \<open>filterModeParam\<close> is the \<open>mode\<close> parameter or 'any'; fetchEmailsByTags only tests
  whether it is 'all'.
\<close>

definition filterModeParam :: "url_params \<Rightarrow> FilterMode" where
  "filterModeParam p = (if p_mode p = Some ''all'' then ModeAll else ModeAny)"

fun split_on :: "char \<Rightarrow> string \<Rightarrow> string list" where
  "split_on sep [] = [[]]"
| "split_on sep (x # xs) =
     (if x = sep then [] # split_on sep xs
      else (case split_on sep xs of [] \<Rightarrow> [[x]] | w # ws \<Rightarrow> (x # w) # ws))"

record TaggedEmailIdentifier =
  ti_email_id :: string
  ti_thread_id :: string

definition fetchEmailIdsAndThreadIdsByTag ::
  "(string \<Rightarrow> string \<Rightarrow> TaggedEmailIdentifier list query_result) \<Rightarrow> string \<Rightarrow> string
     \<Rightarrow> js_error + TaggedEmailIdentifier list" where
  "fetchEmailIdsAndThreadIdsByTag rpc userId tagName =
     (if userId = [] \<or> tagName = [] then Inr []
      else case rpc userId tagName of
          QThrows e \<Rightarrow> Inl e
        | QError e \<Rightarrow> Inl e
        | QData d \<Rightarrow> Inr (case d of None \<Rightarrow> [] | Some rows \<Rightarrow> rows))"

text \<open>
  The environment of one load: the session, the remote services, the store queries, and
  for the k-th awaited call of the load whether \<open>signal.aborted\<close> is set when the call
  returns (the cleanup of a superseded effect aborts the signal).
\<close>

record env =
  en_helpers :: helpers
  en_session :: session_info
  en_listMessages :: "list_request \<Rightarrow> string option \<Rightarrow> list_body fetch_result"
  en_getMessage :: "string \<Rightarrow> string option \<Rightarrow> GmailFullMessage fetch_result"
  en_auth :: auth_user
  en_emailsQuery :: "string \<Rightarrow> string list \<Rightarrow> email_row list query_result"
  en_supabaseQuery :: "string \<Rightarrow> string list \<Rightarrow> supabase_row list query_result"
  en_tagRpc :: "string \<Rightarrow> string \<Rightarrow> TaggedEmailIdentifier list query_result"
  en_aborted :: "nat \<Rightarrow> bool"

subsection \<open>loadData and the effect that runs it\<close>

text \<open>
  The data-fetching effect calls the async function \<open>loadData\<close> and then, in the same
  synchronous turn, stores the current page token, legacy filter, search query and tags
  parameter in the refs. An async function runs synchronously up to its first \<open>await\<close>:
  \<open>loadDataSync\<close> is that part (it reads the refs of the previous run), and
  \<open>loadDataAsync\<close> is the rest, which runs after the refs were updated. Every path of
  \<open>loadData\<close> that is not the thread-view return awaits a fetch before it reaches the
  selection check. State variables are read from the render the effect belongs to (the
  closure \<open>c\<close>), refs are read live, and the setters act on the current state \<open>s\<close>.
\<close>

definition catchBlock :: "js_error \<Rightarrow> list_state \<Rightarrow> list_state" where
  "catchBlock err s =
     (if err_name err \<noteq> ''AbortError'' then
        (let s1 = s\<lparr>errorS := Some (if err_message err \<noteq> [] then err_message err
                                      else ''Failed to load emails.''),
                     allEmails := []\<rparr>
         in if err_message err = ''Google API token expired''
            then s1\<lparr>navigatedTo := Some ''/auth''\<rparr> else s1)
      else s)"

definition finallyBlock :: "bool \<Rightarrow> list_state \<Rightarrow> list_state" where
  "finallyBlock aborted s = (if \<not> aborted then s\<lparr>isLoading := False\<rparr> else s)"

definition clearSelectionIfChanged :: "url_params \<Rightarrow> list_state \<Rightarrow> list_state \<Rightarrow> list_state" where
  "clearSelectionIfChanged p c s =
     (if pageToken c \<noteq> pageTokenRef s \<or>
         activeFilterName p \<noteq> activeFilterNameRef s \<or>
         p_q p \<noteq> searchQueryRef s \<or>
         p_tags p \<noteq> filterTagsParamRef s
      then s\<lparr>selectedEmails := [], selectAll := False\<rparr>
      else s)"

text \<open>
  The common tail of a load that was not aborted: commit the result, run the selection
  check, and leave through \<open>finally\<close>.
\<close>

definition updateState ::
  "url_params \<Rightarrow> list_state \<Rightarrow> EmailItem list \<Rightarrow> (string \<rightharpoonup> EmailItem) \<Rightarrow> list_state
     \<Rightarrow> list_state" where
  "updateState p c fetchedEmailsResult finalCache s =
     finallyBlock False
       (clearSelectionIfChanged p c
          (s\<lparr>allEmails := fetchedEmailsResult, emailCache := finalCache\<rparr>))"

definition loadDataSync :: "url_params \<Rightarrow> list_state \<Rightarrow> list_state \<times> bool" where
  "loadDataSync p s =
     (let s1 = s\<lparr>isLoading := True, errorS := None\<rparr>
      in if truthy (p_threadId p) then (s1\<lparr>isLoading := False\<rparr>, False)
         else
           (let isPaging = (pageToken s \<noteq> pageTokenRef s \<and> pageToken s \<noteq> Undefined);
                s2 = (if \<not> isPaging then s1\<lparr>nextPageTokenS := None, prevPageTokens := []\<rparr>
                      else s1)
            in if isNewTagFilterView p then
                 (s2\<lparr>pageToken := Null, nextPageTokenS := None, prevPageTokens := []\<rparr>, True)
               else if isSearchView p then
                 (s2\<lparr>pageToken := Null, nextPageTokenS := None, prevPageTokens := []\<rparr>, True)
               else if isTagView p then
                 (s2\<lparr>pageToken := Null, nextPageTokenS := None, prevPageTokens := []\<rparr>, True)
               else (s2, True)))"

definition emailItemOfFiltered :: "helpers \<Rightarrow> (string \<rightharpoonup> SupabaseEmailData) \<Rightarrow> Email \<Rightarrow> EmailItem" where
  "emailItemOfFiltered h supabaseMap fe =
     (let supabaseDetail = supabaseMap (e_email_id fe)
      in \<lparr>it_id = e_email_id fe,
          it_threadId = str_of (e_thread_id fe),
          it_subject = (if truthy (e_subject fe) then str_of (e_subject fe) else ''(No Subject)''),
          it_sender = fst (parseSender h (str_of (e_from fe))),
          it_senderAddress = snd (parseSender h (str_of (e_from fe))),
          it_excerpt = str_of (e_snippet fe),
          it_date = (if truthy (e_date fe) then formatDate h (parseDate h (str_of (e_date fe)))
                     else ''N/A''),
          it_dateObj = (if truthy (e_date fe) then parseDate h (str_of (e_date fe)) else Some 0),
          it_read = True,
          it_starred = (case e_is_starred fe of None \<Rightarrow> False | Some b \<Rightarrow> b),
          it_tags = (case supabaseDetail of None \<Rightarrow> [] | Some d \<Rightarrow> sd_tags d)\<rparr>)"

text \<open>
  The logic shared by the search, legacy-tag and paged views. Its awaited calls are the
  second and third of the load. The result carries the ids for which a detail request
  was issued.
\<close>

definition commonLogic ::
  "env \<Rightarrow> string \<Rightarrow> url_params \<Rightarrow> list_state \<Rightarrow> string list \<Rightarrow> list_state
     \<Rightarrow> list_state \<times> string list" where
  "commonLogic env uid p c messageIds s =
     (if messageIds \<noteq> [] then
        (let idsToFetchDetails = filter (\<lambda>i. emailCache c i = None) messageIds
         in case (if idsToFetchDetails \<noteq> []
                  then fetchFullEmailDetails (en_session env) (en_getMessage env) idsToFetchDetails
                  else ([], Inr [])) of
              (requested, Inl err) \<Rightarrow>
                (finallyBlock (en_aborted env 1) (catchBlock err s), requested)
            | (requested, Inr fetchedGmailMessages) \<Rightarrow>
                if idsToFetchDetails \<noteq> [] \<and> en_aborted env 1 then (s, requested)
                else
                  (let supabaseData =
                         fetchSupabaseEmailData (en_supabaseQuery env) uid messageIds
                   in if en_aborted env 2 then (s, requested)
                      else
                        (case processAndMergeEmails (en_helpers env) messageIds
                                fetchedGmailMessages supabaseData (emailCache c) of
                           (processedEmails, updatedCache) \<Rightarrow>
                             (updateState p c processedEmails updatedCache s, requested))))
      else (updateState p c [] (emailCache c) s, []))"

definition loadDataAsync ::
  "env \<Rightarrow> string \<Rightarrow> url_params \<Rightarrow> list_state \<Rightarrow> list_state \<Rightarrow> list_state \<times> string list" where
  "loadDataAsync env uid p c s =
     (if isNewTagFilterView p then
        (case fetchEmailsByTags (en_auth env) (en_emailsQuery env) (en_session env)
                (en_getMessage env) (toLowerCase (en_helpers env))
                (split_on CHR '','' (str_of (p_tags p))) (filterModeParam p) of
           (requested, Inl err) \<Rightarrow>
             (finallyBlock (en_aborted env 0) (catchBlock err s), requested)
         | (requested, Inr fetchedFilteredEmails) \<Rightarrow>
             if en_aborted env 0 then (s, requested)
             else if fetchedFilteredEmails \<noteq> [] then
               (let filteredEmailIds = map e_email_id fetchedFilteredEmails;
                    supabaseData =
                      fetchSupabaseEmailData (en_supabaseQuery env) uid filteredEmailIds
                in if en_aborted env 1 then (s, requested)
                   else
                     (let supabaseMap = mapOfEntries (map (\<lambda>d. (sd_email_id d, d)) supabaseData);
                          fetchedEmailsResult =
                            map (emailItemOfFiltered (en_helpers env) supabaseMap)
                                fetchedFilteredEmails;
                          newCacheEntries =
                            mapOfEntries (map (\<lambda>emailItem. (it_id emailItem, emailItem))
                                              fetchedEmailsResult);
                          finalCache = emailCache c ++ newCacheEntries
                      in (updateState p c fetchedEmailsResult finalCache s, requested)))
             else (updateState p c [] (emailCache c) s, requested))
      else if isSearchView p then
        (case searchGmailMessages (en_session env) (en_listMessages env) (str_of (p_q p)) 50 of
           Inl err \<Rightarrow> (finallyBlock (en_aborted env 0) (catchBlock err s), [])
         | Inr searchResult \<Rightarrow>
             if en_aborted env 0 then (s, [])
             else if messages searchResult = [] then
               (finallyBlock False (s\<lparr>allEmails := [], isLoading := False\<rparr>), [])
             else commonLogic env uid p c (map md_id (messages searchResult)) s)
      else if isTagView p then
        (case fetchEmailIdsAndThreadIdsByTag (en_tagRpc env) uid (str_of (activeFilterName p)) of
           Inl err \<Rightarrow> (finallyBlock (en_aborted env 0) (catchBlock err s), [])
         | Inr tagIdentifiers \<Rightarrow>
             if en_aborted env 0 then (s, [])
             else if tagIdentifiers = [] then
               (finallyBlock False (s\<lparr>allEmails := [], isLoading := False\<rparr>), [])
             else commonLogic env uid p c (map ti_email_id tagIdentifiers) s)
      else
        (case (if activeTab c = ''important''
               then fetchImportantEmailMetadataPage (en_session env) (en_listMessages env)
                      (pageToken c) 20
               else fetchEmailMetadataPage (en_session env) (en_listMessages env)
                      (pageToken c) 20) of
           Inl err \<Rightarrow> (finallyBlock (en_aborted env 0) (catchBlock err s), [])
         | Inr metadataResult \<Rightarrow>
             if en_aborted env 0 then (s, [])
             else
               (let messageIds = map md_id (messages metadataResult);
                    s1 = s\<lparr>nextPageTokenS := (if truthy (nextPageToken metadataResult)
                                                then nextPageToken metadataResult else None)\<rparr>;
                    s2 = (if messages metadataResult = [] then s1\<lparr>allEmails := []\<rparr> else s1)
                in commonLogic env uid p c messageIds s2)))"

definition emailsEffect ::
  "env \<Rightarrow> bool \<Rightarrow> string option \<Rightarrow> url_params \<Rightarrow> list_state \<Rightarrow> list_state \<times> string list" where
  "emailsEffect env isAuthenticated userId p s =
     (if \<not> isAuthenticated \<or> \<not> truthy userId then
        (s\<lparr>allEmails := [], emailCache := Map.empty, pageToken := Undefined,
           nextPageTokenS := None, prevPageTokens := [], errorS := None,
           selectedEmails := [], selectAll := False\<rparr>, [])
      else
        (case loadDataSync p s of
           (s1, proceeds) \<Rightarrow>
             (let s2 = s1\<lparr>pageTokenRef := pageToken s,
                          activeFilterNameRef := activeFilterName p,
                          searchQueryRef := p_q p,
                          filterTagsParamRef := p_tags p\<rparr>
              in if proceeds then loadDataAsync env (str_of userId) p s s2 else (s2, []))))"

subsection \<open>Paging and refresh handlers\<close>

definition goToNextPage :: "list_state \<Rightarrow> list_state" where
  "goToNextPage s =
     (if truthy (nextPageTokenS s) then
        s\<lparr>prevPageTokens := prevPageTokens s @ [str_of (token_param (pageToken s))],
          pageToken := Token (str_of (nextPageTokenS s))\<rparr>
      else s)"

definition goToPrevPage :: "list_state \<Rightarrow> list_state" where
  "goToPrevPage s =
     (if prevPageTokens s \<noteq> [] then
        s\<lparr>prevPageTokens := butlast (prevPageTokens s),
          pageToken := Token (last (prevPageTokens s))\<rparr>
      else s)"

definition toggleEmailSelection :: "string \<Rightarrow> list_state \<Rightarrow> list_state" where
  "toggleEmailSelection i s =
     s\<lparr>selectedEmails := (if i \<in> set (selectedEmails s)
                           then filter (\<lambda>emailId. emailId \<noteq> i) (selectedEmails s)
                           else selectedEmails s @ [i])\<rparr>"

definition triggerRefresh :: "url_params \<Rightarrow> list_state \<Rightarrow> list_state" where
  "triggerRefresh p s =
     (if \<not> isTagView p \<and> \<not> isSearchView p \<and> \<not> isNewTagFilterView p \<and> \<not> isLoading s then
        s\<lparr>emailCache := Map.empty, pageToken := Null, errorS := None,
          refreshKey := refreshKey s + 1\<rparr>
      else s)"

text \<open>The view modes of the specification, in the order in which \<open>loadData\<close> tests them.\<close>

datatype view_mode = MultiTagView | Searching | LegacyTagView | Paged

definition viewMode :: "url_params \<Rightarrow> view_mode" where
  "viewMode p =
     (if isNewTagFilterView p then MultiTagView
      else if isSearchView p then Searching
      else if isTagView p then LegacyTagView
      else Paged)"

subsection \<open>The tag-id set of an item\<close>




text \<open>Sample inputs: three ISO timestamps with their time values, and events.\<close>

definition sampleGetTime :: "string \<Rightarrow> int option" where
  "sampleGetTime = map_of
     [(''2024-01-01T00:00:00.000Z'', 1704067200000),
      (''2024-01-01T00:00:02.000Z'', 1704067202000),
      (''2024-01-01T00:10:00.000Z'', 1704067800000)]"

definition bareEvent :: "string \<Rightarrow> GoogleCalendarEvent" where
  "bareEvent i = \<lparr>ev_id = i, ev_summary = None, ev_description = None, ev_start = None,
                  ev_end = None, ev_status = Some ''confirmed'', ev_htmlLink = None,
                  ev_created = None, ev_updated = None, ev_tags = None\<rparr>"

definition sampleStore :: store where
  "sampleStore =
     \<lparr>tags = [\<lparr>tr_id = ''t1'', tr_user = ''u1'', tr_name = ''work'', tr_type = ''pin'',
                tr_color = ''gray''\<rparr>,
              \<lparr>tr_id = ''t2'', tr_user = ''u1'', tr_name = ''home'', tr_type = ''pin'',
                tr_color = ''gray''\<rparr>],
      emails_table = [\<lparr>em_id = ''m1'', em_user = ''u1''\<rparr>],
      email_tags = [\<lparr>l_item = ''m1'', l_tag = ''t1'', l_user = ''u1''\<rparr>,
                    \<lparr>l_item = ''m1'', l_tag = ''t2'', l_user = ''u1''\<rparr>],
      removed_email_tags_log = [],
      calendar_event_tags = [\<lparr>l_item = ''e1'', l_tag = ''t1'', l_user = ''u1''\<rparr>],
      timeline_custom_cards = [],
      timeline_card_tags = [\<lparr>l_item = ''c1'', l_tag = ''t1'', l_user = ''u1''\<rparr>],
      custom_cards = [],
      custom_card_tags = [],
      custom_cards_log = []\<rparr>"

definition sampleStoreError :: js_error where
  "sampleStoreError = JsError ''PostgrestError'' ''permission denied''"

definition sampleSession :: session_info where
  "sampleSession = \<lparr>sessionError = False, provider_token = Some ''ya29.sample''\<rparr>"

definition unauthorized :: "'a \<Rightarrow> 'a response" where
  "unauthorized j = \<lparr>status = 401, statusText = ''Unauthorized'',
                     errorMessage = Some ''Invalid Credentials'', json = j\<rparr>"

definition noMessage :: GmailFullMessage where
  "noMessage = \<lparr>m_id = [], m_threadId = [], m_snippet = [], m_labelIds = None,
                 m_internalDate = None, m_headers = None\<rparr>"

definition expiredMessages :: "string \<Rightarrow> string option \<Rightarrow> GmailFullMessage fetch_result" where
  "expiredMessages i accessToken = Responded (unauthorized noMessage)"




text \<open>
  The scenario of the specification: emails A with tag t1, B with tags t1 and t2, C
  without tags; two calendar events and three project cards tagged the same way.
\<close>

definition sampleAuth :: auth_user where
  "sampleAuth = \<lparr>userError = False, user = Some ''u1''\<rparr>"

definition sampleEmailRow :: "string \<Rightarrow> string list \<Rightarrow> email_row" where
  "sampleEmailRow i ts = \<lparr>r_email_id = i, r_user_id = ''u1'', r_thread_id = None,
                           r_is_starred = Some False, r_created_at = ''2024-01-01T00:00:00.000Z'',
                           r_updated_at = ''2024-01-01T00:00:00.000Z'', r_email_tags = ts\<rparr>"

definition sampleEmails :: "email_row list" where
  "sampleEmails = [sampleEmailRow ''A'' [''t1''], sampleEmailRow ''B'' [''t1'', ''t2''],
                   sampleEmailRow ''C'' []]"

definition sampleEmailsQuery :: "string \<Rightarrow> string list \<Rightarrow> email_row list query_result" where
  "sampleEmailsQuery userId tagIds = QData (Some (emailsInnerJoin sampleEmails userId tagIds))"

definition sampleTag :: "string \<Rightarrow> Tag" where
  "sampleTag i = \<lparr>t_id = i, t_name = i, t_type = ''pin'', t_color = ''gray''\<rparr>"

definition sampleListEvents ::
  "events_request \<Rightarrow> string option \<Rightarrow> GoogleCalendarEvent list option fetch_result" where
  "sampleListEvents rq accessToken =
     Responded \<lparr>status = 200, statusText = ''OK'', errorMessage = None,
                json = Some [bareEvent ''e1'', bareEvent ''e2'']\<rparr>"

definition sampleEventTags :: "string \<Rightarrow> string list \<Rightarrow> (string \<times> Tag option) list query_result" where
  "sampleEventTags userId eventIds =
     QData (Some [(''e1'', Some (sampleTag ''t1'')), (''e2'', Some (sampleTag ''t1'')),
                  (''e2'', Some (sampleTag ''t2''))])"

definition sampleCard :: "string \<Rightarrow> Tag list \<Rightarrow> TimelineCard" where
  "sampleCard i ts = \<lparr>tc_id = i, tc_user_id = ''u1'', tc_title = i, tc_description = None,
                       tc_start_date = ''2024-01-01'', tc_end_date = None,
                       tc_created_at = ''2024-01-01T00:00:00.000Z'', tc_tags = ts\<rparr>"

definition sampleCards :: "TimelineCard list" where
  "sampleCards = [sampleCard ''A'' [sampleTag ''t1''],
                  sampleCard ''B'' [sampleTag ''t1'', sampleTag ''t2''],
                  sampleCard ''C'' []]"

text \<open>
  A sample environment for the email list: the message list holds m1 and m2 and names a
  next page p2; the detail request for m2 is answered 404, every other one with the
  message; the store has no row for any of them; no load is aborted.
\<close>

definition sampleHelpers :: helpers where
  "sampleHelpers = \<lparr>toLowerCase = id, parseSender = (\<lambda>s. (s, s)),
                     parseDate = sampleGetTime, formatDate = (\<lambda>d. [])\<rparr>"

definition okResponse :: "'a \<Rightarrow> 'a response" where
  "okResponse j = \<lparr>status = 200, statusText = ''OK'', errorMessage = None, json = j\<rparr>"

definition notFound :: "'a \<Rightarrow> 'a response" where
  "notFound j = \<lparr>status = 404, statusText = ''Not Found'', errorMessage = None, json = j\<rparr>"

definition sampleListMessages :: "list_request \<Rightarrow> string option \<Rightarrow> list_body fetch_result" where
  "sampleListMessages rq accessToken =
     Responded (okResponse \<lparr>lb_messages = Some [\<lparr>md_id = ''m1'', md_threadId = ''th1''\<rparr>,
                                                  \<lparr>md_id = ''m2'', md_threadId = ''th2''\<rparr>],
                             lb_nextPageToken = Some ''p2''\<rparr>)"

definition sampleMessage :: "string \<Rightarrow> GmailFullMessage" where
  "sampleMessage i = \<lparr>m_id = i, m_threadId = ''th'' @ i, m_snippet = ''hello'',
                       m_labelIds = Some [''INBOX''], m_internalDate = None,
                       m_headers = Some [(''Subject'', ''Hi'')]\<rparr>"

definition sampleGetMessage :: "string \<Rightarrow> string option \<Rightarrow> GmailFullMessage fetch_result" where
  "sampleGetMessage i accessToken =
     (if i = ''m2'' then Responded (notFound noMessage)
      else Responded (okResponse (sampleMessage i)))"

definition noSupabaseRows :: "string \<Rightarrow> string list \<Rightarrow> supabase_row list query_result" where
  "noSupabaseRows userId emailIds = QData (Some [])"

definition noTagged :: "string \<Rightarrow> string \<Rightarrow> TaggedEmailIdentifier list query_result" where
  "noTagged userId tagName = QData (Some [])"

definition neverAborted :: "nat \<Rightarrow> bool" where
  "neverAborted k = False"

definition sampleEnv :: env where
  "sampleEnv = \<lparr>en_helpers = sampleHelpers, en_session = sampleSession,
                 en_listMessages = sampleListMessages, en_getMessage = sampleGetMessage,
                 en_auth = sampleAuth, en_emailsQuery = sampleEmailsQuery,
                 en_supabaseQuery = noSupabaseRows, en_tagRpc = noTagged,
                 en_aborted = neverAborted\<rparr>"

definition initialState :: list_state where
  "initialState = \<lparr>allEmails = [], emailCache = Map.empty, pageToken = Undefined,
                    nextPageTokenS = None, prevPageTokens = [], isLoading = False,
                    errorS = None, selectedEmails = [], selectAll = False,
                    activeTab = ''all'', refreshKey = 0, pageTokenRef = Undefined,
                    activeFilterNameRef = None, searchQueryRef = None,
                    filterTagsParamRef = None, navigatedTo = None\<rparr>"

definition noParams :: url_params where
  "noParams = \<lparr>p_tag = None, p_priority = None, p_q = None, p_tags = None, p_mode = None,
                p_threadId = None\<rparr>"

text \<open>
  The same environment with every detail request answered, and the list on its second
  page: the first page was loaded from the initial state, then "next" was clicked.
\<close>

definition okGetMessage :: "string \<Rightarrow> string option \<Rightarrow> GmailFullMessage fetch_result" where
  "okGetMessage i accessToken = Responded (okResponse (sampleMessage i))"

definition okEnv :: env where
  "okEnv = sampleEnv\<lparr>en_getMessage := okGetMessage\<rparr>"

definition firstPage :: list_state where
  "firstPage = fst (emailsEffect okEnv True (Some ''u1'') noParams initialState)"

text \<open>
  A mail service with two pages and a search: the first page (no page token) holds m1
  and m2 and names the next page p2, page p2 holds m3 and m4, and every search finds m5.
  \<open>onSecondPage\<close> is the list after the first page was loaded, "next" was clicked and
  page p2 was loaded; \<open>afterSearch\<close> is the list after the search for "invoice" that
  follows.
\<close>

definition pagedListMessages :: "list_request \<Rightarrow> string option \<Rightarrow> list_body fetch_result" where
  "pagedListMessages rq accessToken =
     Responded (okResponse
       (if rq_q rq \<noteq> None then
          \<lparr>lb_messages = Some [\<lparr>md_id = ''m5'', md_threadId = ''th5''\<rparr>], lb_nextPageToken = None\<rparr>
        else if rq_pageToken rq = Some ''p2'' then
          \<lparr>lb_messages = Some [\<lparr>md_id = ''m3'', md_threadId = ''th3''\<rparr>,
                               \<lparr>md_id = ''m4'', md_threadId = ''th4''\<rparr>],
           lb_nextPageToken = None\<rparr>
        else
          \<lparr>lb_messages = Some [\<lparr>md_id = ''m1'', md_threadId = ''th1''\<rparr>,
                               \<lparr>md_id = ''m2'', md_threadId = ''th2''\<rparr>],
           lb_nextPageToken = Some ''p2''\<rparr>))"

definition pagedEnv :: env where
  "pagedEnv = okEnv\<lparr>en_listMessages := pagedListMessages\<rparr>"

definition searchParams :: url_params where
  "searchParams = noParams\<lparr>p_q := Some ''invoice''\<rparr>"

definition onSecondPage :: list_state where
  "onSecondPage =
     fst (emailsEffect pagedEnv True (Some ''u1'') noParams
            (goToNextPage (fst (emailsEffect pagedEnv True (Some ''u1'') noParams initialState))))"

definition afterSearch :: list_state where
  "afterSearch = fst (emailsEffect pagedEnv True (Some ''u1'') searchParams onSecondPage)"

text \<open>
  Store data in which m1 carries the tag t1: as the answer of the store to the page
  query (\<open>taggedRows\<close>), as the data of one email (\<open>sampleStoreData\<close>), and the item
  the list caches for m1 when it is loaded with that data (\<open>cachedM1\<close>).
  \<open>taggedFirstPage\<close> is the first page loaded while the store holds that tag.
\<close>

definition taggedRows :: "string \<Rightarrow> string list \<Rightarrow> supabase_row list query_result" where
  "taggedRows userId emailIds =
     QData (Some [\<lparr>sr_email_id = ''m1'', sr_is_starred = None,
                   sr_email_tags = [TagObject (sampleTag ''t1'')]\<rparr>])"

definition sampleStoreData :: SupabaseEmailData where
  "sampleStoreData = \<lparr>sd_email_id = ''m1'', sd_is_starred = False, sd_tags = [sampleTag ''t1'']\<rparr>"

definition cachedM1 :: EmailItem where
  "cachedM1 = emailItemOfMessage sampleHelpers (mapOfEntries [(''m1'', sampleStoreData)])
                (sampleMessage ''m1'')"

definition taggedFirstPage :: list_state where
  "taggedFirstPage =
     fst (emailsEffect (okEnv\<lparr>en_supabaseQuery := taggedRows\<rparr>) True (Some ''u1'') noParams
            initialState)"










text \<open>
  A store in which the user's custom card c1 carries the tag t1, data for a timeline
  card, and link statements that all fail, respectively all succeed.
\<close>

definition cardStore :: store where
  "cardStore =
     sampleStore\<lparr>custom_cards := [\<lparr>c_id = ''c1'', c_user = ''u1'', c_title = ''Old'',
                                    c_content = ''Text''\<rparr>],
                 custom_card_tags := [\<lparr>l_item = ''c1'', l_tag = ''t1'', l_user = ''u1''\<rparr>]\<rparr>"

definition sampleCardInput :: TimelineCardInput where
  "sampleCardInput = \<lparr>tci_title = ''Trip'', tci_description = None,
                       tci_start_date = ''2024-01-01'', tci_end_date = None\<rparr>"

definition sampleCardPatch :: TimelineCardPatch where
  "sampleCardPatch = \<lparr>tcp_title = Some ''Trip'', tcp_description = None, tcp_start_date = None,
                       tcp_end_date = None\<rparr>"

definition failingLinks :: "string \<Rightarrow> outcome" where
  "failingLinks tagId = Fails sampleStoreError"

definition addedLinks :: "string \<Rightarrow> add_outcome" where
  "addedLinks tagId = Added"

section \<open>Theorems\<close>

subsection \<open>Facts about the card write paths\<close>

lemma remove_all_cards:
  "custom_cards (snd (promiseAll (\<lambda>tagId. removeTagFromCard (ld tagId) uid cardId tagId) xs db))
     = custom_cards db"
  by (induction xs arbitrary: db)
     (auto simp: removeTagFromCard_def case_prod_beta split: outcome.splits)

lemma add_all_cards:
  "custom_cards (snd (promiseAll (\<lambda>tagId. addTagToCard (li tagId) uid cardId tagId) xs db))
     = custom_cards db"
  by (induction xs arbitrary: db)
     (auto simp: addTagToCard_def case_prod_beta split: add_outcome.splits)

lemma updateCard_reports_success:
  assumes row: "find (\<lambda>r. c_id r = cardId \<and> c_user r = uid) (custom_cards db) = Some row"
      and lo: "\<forall>err. lo \<noteq> Throws err"
      and au: "user auth = Some uid" "\<not> userError auth"
  shows "fst (updateCard auth Succeeds ts ld li lo cardId title content newTags db)
           = Inr \<lparr>cc_id = cardId, cc_user_id = uid, cc_title = title,
                  cc_content = content, cc_tags = []\<rparr> \<and>
         custom_cards (snd (updateCard auth Succeeds ts ld li lo cardId title content newTags db))
           = map (\<lambda>r. if c_id r = cardId \<and> c_user r = uid
                       then r\<lparr>c_title := title, c_content := content\<rparr> else r)
                 (custom_cards db)"
proof -
  define db1 where "db1 = db\<lparr>custom_cards :=
                               map (\<lambda>r. if c_id r = cardId \<and> c_user r = uid
                                         then r\<lparr>c_title := title, c_content := content\<rparr> else r)
                                   (custom_cards db)\<rparr>"
  define db2 where "db2 =
     (case newTags of
        None \<Rightarrow> db1
      | Some ids \<Rightarrow>
          (case fetchCardTagIds ts uid cardId db1 of
             Inl tagUpdateError \<Rightarrow> db1
           | Inr currentTagIds \<Rightarrow>
               (let tagsToAdd = filter (\<lambda>tagId. tagId \<notin> set currentTagIds) ids;
                    tagsToRemove = filter (\<lambda>tagId. tagId \<notin> set ids) currentTagIds
                in case (if tagsToRemove \<noteq> []
                         then promiseAll (\<lambda>tagId. removeTagFromCard (ld tagId) uid cardId tagId)
                                tagsToRemove db1
                         else (None, db1)) of
                     (Some tagUpdateError, dbr) \<Rightarrow> dbr
                   | (None, dbr) \<Rightarrow>
                       if tagsToAdd \<noteq> []
                       then snd (promiseAll (\<lambda>tagId. addTagToCard (li tagId) uid cardId tagId)
                                   tagsToAdd dbr)
                       else dbr)))"
  have cards1: "custom_cards db1 = map (\<lambda>r. if c_id r = cardId \<and> c_user r = uid
                       then r\<lparr>c_title := title, c_content := content\<rparr> else r)
                 (custom_cards db)"
    by (simp add: db1_def)
  have rem: "custom_cards (snd (promiseAll (\<lambda>tagId. removeTagFromCard (ld tagId) uid cardId tagId)
                                  xs db1)) = custom_cards db1" for xs
    by (rule remove_all_cards)
  have cards2: "custom_cards db2 = custom_cards db1"
  proof (cases newTags)
    case None
    then show ?thesis by (simp add: db2_def)
  next
    case (Some tagIds)
    show ?thesis
    proof (cases "fetchCardTagIds ts uid cardId db1")
      case (Inl err)
      with Some show ?thesis by (simp add: db2_def)
    next
      case (Inr current)
      define rm where "rm = filter (\<lambda>tagId. tagId \<notin> set tagIds) current"
      define ad where "ad = filter (\<lambda>tagId. tagId \<notin> set current) tagIds"
      obtain res dbr where r: "(if rm \<noteq> []
                         then promiseAll (\<lambda>tagId. removeTagFromCard (ld tagId) uid cardId tagId)
                                rm db1
                         else (None, db1)) = (res, dbr)"
        by (cases "(if rm \<noteq> []
                         then promiseAll (\<lambda>tagId. removeTagFromCard (ld tagId) uid cardId tagId)
                                rm db1
                         else (None, db1))")
      have dbr: "custom_cards dbr = custom_cards db1"
        using r rem[of rm] by (auto split: if_splits)
      have "db2 = (case res of Some tagUpdateError \<Rightarrow> dbr
                   | None \<Rightarrow> if ad \<noteq> []
                       then snd (promiseAll (\<lambda>tagId. addTagToCard (li tagId) uid cardId tagId)
                                   ad dbr)
                       else dbr)"
        using Some Inr r by (simp add: db2_def Let_def rm_def[symmetric] ad_def[symmetric]
                                  split: option.splits)
      then show ?thesis using dbr by (simp add: add_all_cards split: option.splits)
    qed
  qed
  have upd: "updateCard auth Succeeds ts ld li lo cardId title content newTags db =
        (case lo of
           Succeeds \<Rightarrow>
             (Inr \<lparr>cc_id = cardId, cc_user_id = uid, cc_title = title,
                   cc_content = content, cc_tags = []\<rparr>,
              db2\<lparr>custom_cards_log := custom_cards_log db2 @
                     [\<lparr>g_card = cardId, g_user = uid, g_activity = ''UPDATED'',
                       g_title = Some title\<rparr>]\<rparr>)
         | Fails logError \<Rightarrow>
             (Inr \<lparr>cc_id = cardId, cc_user_id = uid, cc_title = title,
                   cc_content = content, cc_tags = []\<rparr>, db2)
         | Throws e \<Rightarrow> (Inl e, db2))"
    using row au unfolding db2_def db1_def by (simp add: updateCard_def Let_def)
  show ?thesis
    unfolding upd using lo cards1 cards2 by (cases lo) simp_all
qed


text \<open>
  C10. removeTagFromEmail returns true whenever the deletion of the email_tags row
  succeeds, whatever the outcome of the following insert into removed_email_tags_log
  (success, an error object, or a rejected call): the association is gone from email_tags
  in the resulting store in every case.
\<close>

theorem removeTagFromEmail_log_best_effort:
  assumes "userId \<noteq> []" and "emailId \<noteq> []" and "tagId \<noteq> []"
  shows "fst (removeTagFromEmail Succeeds logOutcome userId emailId tagId db) = True \<and>
         email_tags (snd (removeTagFromEmail Succeeds logOutcome userId emailId tagId db)) =
           filter (\<lambda>r. \<not> link_matches emailId tagId userId r) (email_tags db)"
  using assms by (cases logOutcome) (simp_all add: removeTagFromEmail_def Let_def)

theorem removeTagFromEmail_log_best_effort_witness:
  "''u1'' \<noteq> [] \<and> ''m1'' \<noteq> [] \<and> ''t1'' \<noteq> [] \<and>
   fst (removeTagFromEmail Succeeds (Fails sampleStoreError) ''u1'' ''m1'' ''t1'' sampleStore) = True \<and>
   email_tags (snd (removeTagFromEmail Succeeds (Fails sampleStoreError) ''u1'' ''m1'' ''t1''
                      sampleStore)) =
     [\<lparr>l_item = ''m1'', l_tag = ''t2'', l_user = ''u1''\<rparr>]"
  using removeTagFromEmail_log_best_effort
          [of "''u1''" "''m1''" "''t1''" "Fails sampleStoreError" sampleStore]
  by (simp add: sampleStore_def link_matches_def)

text \<open>
  C8 (as stated) fails on an event without an \<open>updated\<close> timestamp (the field is
  optional): a confirmed event that only carries \<open>created\<close> is classified as nothing
  at all, the callback returns null and the event is dropped from the feed.
\<close>

theorem classify_without_updated_counterexample:
  "classifyCalendarEvent sampleGetTime ''2024-06-01T00:00:00.000Z''
     ((bareEvent ''e1'')\<lparr>ev_created := Some ''2024-01-01T00:00:00.000Z''\<rparr>) = None"
  by (simp add: classifyCalendarEvent_def bareEvent_def truthy_def)

text \<open>
  C8 (amended). For every calendar event that carries an \<open>updated\<close> timestamp: if its
  status is 'cancelled' it is a deletion event timestamped at \<open>updated\<close>; otherwise, if it
  carries a \<open>created\<close> timestamp and \<open>updated - created\<close> is less than 5000 ms, it is a
  creation event timestamped at \<open>created\<close>; otherwise it is an update event timestamped
  at \<open>updated\<close>.
\<close>

theorem classifyCalendarEvent_with_updated:
  assumes "ev_updated event = Some u" and "u \<noteq> []"
  shows "\<exists>e. classifyCalendarEvent getTime nowISO event = Some e \<and>
             (te_type e, te_timestamp e) =
               (if ev_status event = Some ''cancelled'' then (CALENDAR_EVENT_DELETED, u)
                else if (\<exists>c tc tu. ev_created event = Some c \<and> c \<noteq> [] \<and>
                           getTime c = Some tc \<and> getTime u = Some tu \<and> tu - tc < 5000)
                     then (CALENDAR_EVENT_CREATED, str_of (ev_created event))
                else (CALENDAR_EVENT_UPDATED, u))"
proof -
  define near where "near \<longleftrightarrow> (\<exists>c tc tu. ev_created event = Some c \<and> c \<noteq> [] \<and>
                           getTime c = Some tc \<and> getTime u = Some tu \<and> tu - tc < 5000)"
  have cond: "(truthy (ev_created event) \<and> truthy (ev_updated event) \<and>
               diff_lt (getTime (str_of (ev_updated event)))
                       (getTime (str_of (ev_created event))) 5000) = near"
    using assms unfolding near_def
    by (auto simp: truthy_def str_of_def diff_lt_def split: option.splits)
  have upd: "truthy (ev_updated event)" "str_of (ev_updated event) = u"
    using assms by (simp_all add: truthy_def str_of_def)
  have "\<exists>e. classifyCalendarEvent getTime nowISO event = Some e \<and>
             (te_type e, te_timestamp e) =
               (if ev_status event = Some ''cancelled'' then (CALENDAR_EVENT_DELETED, u)
                else if near then (CALENDAR_EVENT_CREATED, str_of (ev_created event))
                else (CALENDAR_EVENT_UPDATED, u))"
    unfolding classifyCalendarEvent_def Let_def cond
    by (cases near) (simp_all add: upd)
  then show ?thesis unfolding near_def .
qed

theorem classifyCalendarEvent_with_updated_witness:
  "(\<exists>e. classifyCalendarEvent sampleGetTime ''2024-06-01T00:00:00.000Z''
          ((bareEvent ''e1'')\<lparr>ev_created := Some ''2024-01-01T00:00:00.000Z'',
                              ev_updated := Some ''2024-01-01T00:00:02.000Z''\<rparr>) = Some e \<and>
        (te_type e, te_timestamp e) = (CALENDAR_EVENT_CREATED, ''2024-01-01T00:00:00.000Z'')) \<and>
   (\<exists>e. classifyCalendarEvent sampleGetTime ''2024-06-01T00:00:00.000Z''
          ((bareEvent ''e1'')\<lparr>ev_created := Some ''2024-01-01T00:00:00.000Z'',
                              ev_updated := Some ''2024-01-01T00:10:00.000Z''\<rparr>) = Some e \<and>
        (te_type e, te_timestamp e) = (CALENDAR_EVENT_UPDATED, ''2024-01-01T00:10:00.000Z''))"
  using classifyCalendarEvent_with_updated
          [of "(bareEvent ''e1'')\<lparr>ev_created := Some ''2024-01-01T00:00:00.000Z'',
                                  ev_updated := Some ''2024-01-01T00:00:02.000Z''\<rparr>"
              "''2024-01-01T00:00:02.000Z''" sampleGetTime "''2024-06-01T00:00:00.000Z''"]
        classifyCalendarEvent_with_updated
          [of "(bareEvent ''e1'')\<lparr>ev_created := Some ''2024-01-01T00:00:00.000Z'',
                                  ev_updated := Some ''2024-01-01T00:10:00.000Z''\<rparr>"
              "''2024-01-01T00:10:00.000Z''" sampleGetTime "''2024-06-01T00:00:00.000Z''"]
  by (simp add: bareEvent_def sampleGetTime_def str_of_def)

text \<open>
  C9 (as stated) fails in three ways. Replacing the tags of calendar event e1 by [t2]
  when the delete succeeds and the insert fails throws the error, but the event's
  previous tag link is already deleted. Updating card c1 with the new tag set [t2] when
  the removal of its old tag fails reports success: the card is returned, its title is
  changed, and it still carries t1 and not t2; deleting card c1 when the insert into
  the log fails reports success as well, and deleting tag t1 when only the deletion of
  its associations fails returns true. Deleting tag t1 when the deletion of the tag
  itself fails returns false, but the tag's email associations are already deleted
  while the tag is still there.
\<close>

theorem write_path_partial_commit_counterexample:
  "fst (setTagsForCalendarEvent Succeeds (Fails sampleStoreError) ''u1'' ''e1'' [''t2''] sampleStore)
     = Inl sampleStoreError \<and>
   calendar_event_tags (snd (setTagsForCalendarEvent Succeeds (Fails sampleStoreError)
                               ''u1'' ''e1'' [''t2''] sampleStore)) = [] \<and>
   calendar_event_tags sampleStore = [\<lparr>l_item = ''e1'', l_tag = ''t1'', l_user = ''u1''\<rparr>] \<and>
   fst (updateCard sampleAuth Succeeds Succeeds failingLinks addedLinks Succeeds
          ''c1'' ''New'' ''Text'' (Some [''t2'']) cardStore)
     = Inr \<lparr>cc_id = ''c1'', cc_user_id = ''u1'', cc_title = ''New'', cc_content = ''Text'',
            cc_tags = []\<rparr> \<and>
   custom_cards (snd (updateCard sampleAuth Succeeds Succeeds failingLinks addedLinks Succeeds
                        ''c1'' ''New'' ''Text'' (Some [''t2'']) cardStore))
     = [\<lparr>c_id = ''c1'', c_user = ''u1'', c_title = ''New'', c_content = ''Text''\<rparr>] \<and>
   custom_card_tags (snd (updateCard sampleAuth Succeeds Succeeds failingLinks addedLinks Succeeds
                            ''c1'' ''New'' ''Text'' (Some [''t2'']) cardStore))
     = [\<lparr>l_item = ''c1'', l_tag = ''t1'', l_user = ''u1''\<rparr>] \<and>
   fst (deleteCard sampleAuth Succeeds Succeeds (Fails sampleStoreError) ''c1'' cardStore)
     = Inr () \<and>
   custom_cards_log (snd (deleteCard sampleAuth Succeeds Succeeds (Fails sampleStoreError)
                            ''c1'' cardStore)) = [] \<and>
   fst (deleteTag (Fails sampleStoreError) Succeeds ''t1'' ''u1'' sampleStore) = True \<and>
   fst (deleteTag Succeeds (Fails sampleStoreError) ''t1'' ''u1'' sampleStore) = False \<and>
   email_tags (snd (deleteTag Succeeds (Fails sampleStoreError) ''t1'' ''u1'' sampleStore))
     = [\<lparr>l_item = ''m1'', l_tag = ''t2'', l_user = ''u1''\<rparr>] \<and>
   tags (snd (deleteTag Succeeds (Fails sampleStoreError) ''t1'' ''u1'' sampleStore))
     = tags sampleStore"
proof -
  have a: "setTagsForCalendarEvent Succeeds (Fails sampleStoreError) ''u1'' ''e1'' [''t2''] sampleStore
             = (Inl sampleStoreError, sampleStore\<lparr>calendar_event_tags := []\<rparr>)"
          "calendar_event_tags sampleStore = [\<lparr>l_item = ''e1'', l_tag = ''t1'', l_user = ''u1''\<rparr>]"
    by (simp_all add: setTagsForCalendarEvent_def sampleStore_def)
  have b: "updateCard sampleAuth Succeeds Succeeds failingLinks addedLinks Succeeds
             ''c1'' ''New'' ''Text'' (Some [''t2'']) cardStore
           = (Inr \<lparr>cc_id = ''c1'', cc_user_id = ''u1'', cc_title = ''New'', cc_content = ''Text'',
                   cc_tags = []\<rparr>,
              cardStore\<lparr>custom_cards := [\<lparr>c_id = ''c1'', c_user = ''u1'', c_title = ''New'',
                                           c_content = ''Text''\<rparr>],
                        custom_cards_log := [\<lparr>g_card = ''c1'', g_user = ''u1'',
                                               g_activity = ''UPDATED'', g_title = Some ''New''\<rparr>]\<rparr>)"
          "custom_card_tags cardStore = [\<lparr>l_item = ''c1'', l_tag = ''t1'', l_user = ''u1''\<rparr>]"
    by (simp_all add: updateCard_def sampleAuth_def cardStore_def sampleStore_def
                      fetchCardTagIds_def removeTagFromCard_def failingLinks_def Let_def)
  have c: "deleteCard sampleAuth Succeeds Succeeds (Fails sampleStoreError) ''c1'' cardStore
           = (Inr (), cardStore\<lparr>custom_cards := [], custom_card_tags := []\<rparr>)"
          "custom_cards_log cardStore = []"
    by (simp_all add: deleteCard_def sampleAuth_def cardStore_def sampleStore_def Let_def)
  have d: "fst (deleteTag (Fails sampleStoreError) Succeeds ''t1'' ''u1'' sampleStore) = True"
          "deleteTag Succeeds (Fails sampleStoreError) ''t1'' ''u1'' sampleStore
           = (False, sampleStore\<lparr>email_tags := [\<lparr>l_item = ''m1'', l_tag = ''t2'',
                                                    l_user = ''u1''\<rparr>]\<rparr>)"
    by (simp_all add: deleteTag_def sampleStore_def Let_def)
  show ?thesis by (simp add: a b c d)
qed

text \<open>
  C9 (amended). For the write paths of cards, tags and tag associations, called with
  non-empty ids and valid data by a signed-in user. (1) A failing store statement leaves
  the store unchanged and is reported: it is thrown to the caller in the
  single-statement paths createTimelineCard, updateTimelineCard, deleteTimelineCard,
  deleteTimelineCardTags and deleteCalendarEventTags, and when it is the first write
  statement of setTagsForCalendarEvent, setTagsForTimelineCard, createCard, updateCard
  and deleteCard; addNewTag shows it in an error toast; removeTagFromEmail and
  addTagToEmail return false; deleteTag returns false when its first statement is
  rejected, or returns an error and the second statement fails too. (2) A statement that
  fails after an earlier one succeeded leaves the earlier one committed:
  setTagsForCalendarEvent and setTagsForTimelineCard throw the error of the insert with
  the previous links deleted, createCard throws an error with the card stored without
  tags, addTagToEmail returns false with the row it inserted for the email, deleteTag
  returns false with the tag's email associations deleted. (3) Some failures are not
  reported: updateCard returns the updated card, with the card's title and content
  changed, whatever happens to the statements that change its tags; createCard and
  deleteCard report success when only the insert into the log returns an error;
  deleteTag returns true when only the deletion of the associations returns an error.
\<close>

theorem write_path_failure:
  assumes ids: "userId \<noteq> []" "itemId \<noteq> []"
      and au: "user auth = Some userId" "\<not> userError auth"
      and bad: "outcome_error bad = Some e"
      and valid: "tci_title cardData \<noteq> []" "tci_start_date cardData \<noteq> []"
  shows "createTimelineCard (InsertFails e) userId cardData db = (Inl e, db) \<and>
         createTimelineCard (InsertThrows e) userId cardData db = (Inl e, db) \<and>
         updateTimelineCard bad userId itemId cardPatch db = (Inl e, db) \<and>
         deleteTimelineCard bad userId itemId db = (Inl e, db) \<and>
         deleteTimelineCardTags bad userId itemId db = (Inl e, db) \<and>
         deleteCalendarEventTags bad userId itemId db = (Inl e, db) \<and>
         setTagsForCalendarEvent bad io userId itemId tagIds db = (Inl e, db) \<and>
         setTagsForTimelineCard bad io userId itemId tagIds db = (Inl e, db) \<and>
         createCard auth (InsertFails e) io lo title content tagIds db = (Inl e, db) \<and>
         createCard auth (InsertThrows e) io lo title content tagIds db = (Inl e, db) \<and>
         updateCard auth bad ts ld li lo itemId title content newTags db = (Inl e, db) \<and>
         deleteCard auth Succeeds bad lo itemId db = (Inl e, db) \<and>
         deleteCard auth (Fails readError) bad lo itemId db = (Inl e, db) \<and>
         (length pins < 12 \<longrightarrow> length priorities < 12 \<longrightarrow> trim name \<noteq> [] \<longrightarrow>
            addNewTag (TagInsertFails e) trim (Some userId) pins priorities name color tagType db
              = (Some (Toast ''Error'' (''Failed to create tag: '' @ err_message e) True), db) \<and>
            addNewTag (TagInsertThrows e) trim (Some userId) pins priorities name color tagType db
              = (Some (Toast ''Error'' (''Failed to create tag: '' @ err_message e) True), db)) \<and>
         removeTagFromEmail bad lo userId itemId tagId db = (False, db) \<and>
         addTagToEmail bad io lo userId itemId tagId db = (False, db) \<and>
         (find (\<lambda>r. em_id r = itemId \<and> em_user r = userId) (emails_table db) = None \<longrightarrow>
            addTagToEmail Succeeds bad lo userId itemId tagId db = (False, db)) \<and>
         (find (\<lambda>r. em_id r = itemId \<and> em_user r = userId) (emails_table db) = Some mail \<longrightarrow>
            addTagToEmail Succeeds io bad userId itemId tagId db = (False, db)) \<and>
         deleteTag (Throws e) io itemId userId db = (False, db) \<and>
         deleteTag (Fails e) bad itemId userId db = (False, db) \<and>
         (tagIds \<noteq> [] \<longrightarrow>
            setTagsForCalendarEvent Succeeds bad userId itemId tagIds db =
              (Inl e, db\<lparr>calendar_event_tags :=
                          filter (\<lambda>r. \<not> (l_user r = userId \<and> l_item r = itemId))
                                 (calendar_event_tags db)\<rparr>)) \<and>
         (tagIds \<noteq> [] \<longrightarrow>
            setTagsForTimelineCard Succeeds bad userId itemId tagIds db =
              (Inl e, db\<lparr>timeline_card_tags :=
                          filter (\<lambda>r. \<not> (l_user r = userId \<and> l_item r = itemId))
                                 (timeline_card_tags db)\<rparr>)) \<and>
         (tagIds \<noteq> [] \<longrightarrow>
            (\<exists>err. createCard auth (Returned itemId) bad lo title content tagIds db =
               (Inl err,
                db\<lparr>custom_cards := custom_cards db @
                       [\<lparr>c_id = itemId, c_user = userId, c_title = title,
                         c_content = content\<rparr>]\<rparr>))) \<and>
         (tagId \<noteq> [] \<longrightarrow>
          find (\<lambda>r. em_id r = itemId \<and> em_user r = userId) (emails_table db) = None \<longrightarrow>
            addTagToEmail Succeeds Succeeds bad userId itemId tagId db =
              (False, db\<lparr>emails_table := emails_table db @
                                            [\<lparr>em_id = itemId, em_user = userId\<rparr>]\<rparr>)) \<and>
         deleteTag Succeeds bad itemId userId db =
           (False, db\<lparr>email_tags := filter (\<lambda>l. \<not> (l_tag l = itemId \<and> l_user l = userId))
                                            (email_tags db)\<rparr>) \<and>
         (find (\<lambda>r. c_id r = itemId \<and> c_user r = userId) (custom_cards db) = Some row \<longrightarrow>
          (\<forall>err. lo \<noteq> Throws err) \<longrightarrow>
            fst (updateCard auth Succeeds ts ld li lo itemId title content newTags db)
              = Inr \<lparr>cc_id = itemId, cc_user_id = userId, cc_title = title,
                     cc_content = content, cc_tags = []\<rparr> \<and>
            custom_cards (snd (updateCard auth Succeeds ts ld li lo itemId title content
                                 newTags db))
              = map (\<lambda>r. if c_id r = itemId \<and> c_user r = userId
                          then r\<lparr>c_title := title, c_content := content\<rparr> else r)
                    (custom_cards db)) \<and>
         fst (createCard auth (Returned itemId) Succeeds (Fails e) title content tagIds db)
           = Inr \<lparr>cc_id = itemId, cc_user_id = userId, cc_title = title,
                  cc_content = content, cc_tags = []\<rparr> \<and>
         fst (deleteCard auth Succeeds Succeeds (Fails e) itemId db) = Inr () \<and>
         fst (deleteTag (Fails e) Succeeds itemId userId db) = True"
proof -
  from bad have bc: "bad = Fails e \<or> bad = Throws e"
    by (cases bad) (simp_all add: outcome_error_def)
  have s1: "createTimelineCard (InsertFails e) userId cardData db = (Inl e, db)"
           "createTimelineCard (InsertThrows e) userId cardData db = (Inl e, db)"
    using ids valid by (simp_all add: createTimelineCard_def)
  have s2: "updateTimelineCard bad userId itemId cardPatch db = (Inl e, db)"
    using ids bc by (auto simp: updateTimelineCard_def)
  have s3: "deleteTimelineCard bad userId itemId db = (Inl e, db)"
    using ids bc by (auto simp: deleteTimelineCard_def)
  have s4: "deleteTimelineCardTags bad userId itemId db = (Inl e, db)"
    using ids bc by (auto simp: deleteTimelineCardTags_def)
  have s5: "deleteCalendarEventTags bad userId itemId db = (Inl e, db)"
    using ids bc by (auto simp: deleteCalendarEventTags_def)
  have f1: "setTagsForCalendarEvent bad io userId itemId tagIds db = (Inl e, db)"
    using ids bc by (auto simp: setTagsForCalendarEvent_def)
  have f2: "setTagsForTimelineCard bad io userId itemId tagIds db = (Inl e, db)"
    using ids bc by (auto simp: setTagsForTimelineCard_def)
  have f3: "createCard auth (InsertFails e) io lo title content tagIds db = (Inl e, db)"
           "createCard auth (InsertThrows e) io lo title content tagIds db = (Inl e, db)"
    using au by (simp_all add: createCard_def)
  have f4: "updateCard auth bad ts ld li lo itemId title content newTags db = (Inl e, db)"
    using au bc by (auto simp: updateCard_def)
  have f5: "deleteCard auth Succeeds bad lo itemId db = (Inl e, db)"
           "deleteCard auth (Fails readError) bad lo itemId db = (Inl e, db)"
    using au bc by (auto simp: deleteCard_def Let_def)
  have f6: "addNewTag (TagInsertFails e) trim (Some userId) pins priorities name color tagType db
              = (Some (Toast ''Error'' (''Failed to create tag: '' @ err_message e) True), db) \<and>
            addNewTag (TagInsertThrows e) trim (Some userId) pins priorities name color tagType db
              = (Some (Toast ''Error'' (''Failed to create tag: '' @ err_message e) True), db)"
    if "length pins < 12" "length priorities < 12" "trim name \<noteq> []"
    using that ids by (simp add: addNewTag_def truthy_def)
  have f7: "removeTagFromEmail bad lo userId itemId tagId db = (False, db)"
    using bc by (auto simp: removeTagFromEmail_def)
  have f8: "addTagToEmail bad io lo userId itemId tagId db = (False, db)"
    using bc by (auto simp: addTagToEmail_def)
  have f9: "addTagToEmail Succeeds bad lo userId itemId tagId db = (False, db)"
    if "find (\<lambda>r. em_id r = itemId \<and> em_user r = userId) (emails_table db) = None"
    using that bc by (auto simp: addTagToEmail_def Let_def)
  have f9': "addTagToEmail Succeeds io bad userId itemId tagId db = (False, db)"
    if "find (\<lambda>r. em_id r = itemId \<and> em_user r = userId) (emails_table db) = Some mail"
    using that bc by (auto simp: addTagToEmail_def Let_def)
  have f10: "deleteTag (Throws e) io itemId userId db = (False, db)"
            "deleteTag (Fails e) bad itemId userId db = (False, db)"
    using ids bc by (auto simp: deleteTag_def Let_def)
  have l1: "setTagsForCalendarEvent Succeeds bad userId itemId tagIds db =
              (Inl e, db\<lparr>calendar_event_tags :=
                          filter (\<lambda>r. \<not> (l_user r = userId \<and> l_item r = itemId))
                                 (calendar_event_tags db)\<rparr>)"
    if "tagIds \<noteq> []"
    using that ids bc by (auto simp: setTagsForCalendarEvent_def Let_def)
  have l2: "setTagsForTimelineCard Succeeds bad userId itemId tagIds db =
              (Inl e, db\<lparr>timeline_card_tags :=
                          filter (\<lambda>r. \<not> (l_user r = userId \<and> l_item r = itemId))
                                 (timeline_card_tags db)\<rparr>)"
    if "tagIds \<noteq> []"
    using that ids bc by (auto simp: setTagsForTimelineCard_def Let_def)
  have l3: "\<exists>err. createCard auth (Returned itemId) bad lo title content tagIds db =
               (Inl err,
                db\<lparr>custom_cards := custom_cards db @
                       [\<lparr>c_id = itemId, c_user = userId, c_title = title,
                         c_content = content\<rparr>]\<rparr>)"
    if "tagIds \<noteq> []"
    using that au bc by (auto simp: createCard_def Let_def)
  have l4: "addTagToEmail Succeeds Succeeds bad userId itemId tagId db =
              (False, db\<lparr>emails_table := emails_table db @
                                            [\<lparr>em_id = itemId, em_user = userId\<rparr>]\<rparr>)"
    if "tagId \<noteq> []"
       "find (\<lambda>r. em_id r = itemId \<and> em_user r = userId) (emails_table db) = None"
    using that ids bc by (auto simp: addTagToEmail_def Let_def)
  have l5: "deleteTag Succeeds bad itemId userId db =
           (False, db\<lparr>email_tags := filter (\<lambda>l. \<not> (l_tag l = itemId \<and> l_user l = userId))
                                            (email_tags db)\<rparr>)"
    using ids bc by (auto simp: deleteTag_def Let_def)
  have n1:
    "fst (updateCard auth Succeeds ts ld li lo itemId title content newTags db)
       = Inr \<lparr>cc_id = itemId, cc_user_id = userId, cc_title = title,
              cc_content = content, cc_tags = []\<rparr> \<and>
     custom_cards (snd (updateCard auth Succeeds ts ld li lo itemId title content newTags db))
       = map (\<lambda>r. if c_id r = itemId \<and> c_user r = userId
                   then r\<lparr>c_title := title, c_content := content\<rparr> else r)
             (custom_cards db)"
    if "find (\<lambda>r. c_id r = itemId \<and> c_user r = userId) (custom_cards db) = Some row"
       "\<forall>err. lo \<noteq> Throws err"
    using that au by (rule updateCard_reports_success)
  have n2: "fst (createCard auth (Returned itemId) Succeeds (Fails e) title content tagIds db)
       = Inr \<lparr>cc_id = itemId, cc_user_id = userId, cc_title = title,
              cc_content = content, cc_tags = []\<rparr>"
    using au by (simp add: createCard_def Let_def)
  have n3: "fst (deleteCard auth Succeeds Succeeds (Fails e) itemId db) = Inr ()"
    using au by (simp add: deleteCard_def Let_def)
  have n4: "fst (deleteTag (Fails e) Succeeds itemId userId db) = True"
    using ids by (simp add: deleteTag_def Let_def)
  show ?thesis
    by (intro conjI impI s1 s2 s3 s4 s5 f1 f2 f3 f4 f5 f7 f8 f9 f9' f10 l1 l2 l3 l4 l5 n2 n3 n4
              f6[THEN conjunct1] f6[THEN conjunct2] n1[THEN conjunct1] n1[THEN conjunct2])
qed

theorem write_path_failure_witness:
  "createTimelineCard (InsertFails sampleStoreError) ''u1'' sampleCardInput cardStore
     = (Inl sampleStoreError, cardStore) \<and>
   updateTimelineCard (Fails sampleStoreError) ''u1'' ''c1'' sampleCardPatch cardStore
     = (Inl sampleStoreError, cardStore) \<and>
   deleteTimelineCard (Fails sampleStoreError) ''u1'' ''c1'' cardStore
     = (Inl sampleStoreError, cardStore) \<and>
   deleteCalendarEventTags (Fails sampleStoreError) ''u1'' ''c1'' cardStore
     = (Inl sampleStoreError, cardStore) \<and>
   setTagsForCalendarEvent (Fails sampleStoreError) Succeeds ''u1'' ''c1'' [''t2''] cardStore
     = (Inl sampleStoreError, cardStore) \<and>
   createCard sampleAuth (InsertFails sampleStoreError) Succeeds Succeeds ''New'' ''Text''
       [''t2''] cardStore
     = (Inl sampleStoreError, cardStore) \<and>
   updateCard sampleAuth (Fails sampleStoreError) Succeeds failingLinks addedLinks Succeeds
       ''c1'' ''New'' ''Text'' (Some [''t2'']) cardStore
     = (Inl sampleStoreError, cardStore) \<and>
   deleteCard sampleAuth Succeeds (Fails sampleStoreError) Succeeds ''c1'' cardStore
     = (Inl sampleStoreError, cardStore) \<and>
   addNewTag (TagInsertFails sampleStoreError) id (Some ''u1'') [] [] ''urgent'' ''gray'' ''pin''
       cardStore
     = (Some (Toast ''Error'' ''Failed to create tag: permission denied'' True), cardStore) \<and>
   addTagToEmail Succeeds (Fails sampleStoreError) Succeeds ''u1'' ''c1'' ''t1'' cardStore
     = (False, cardStore) \<and>
   fst (setTagsForTimelineCard Succeeds (Fails sampleStoreError) ''u1'' ''c1'' [''t2''] cardStore)
     = Inl sampleStoreError \<and>
   timeline_card_tags (snd (setTagsForTimelineCard Succeeds (Fails sampleStoreError)
                              ''u1'' ''c1'' [''t2''] cardStore)) = [] \<and>
   timeline_card_tags cardStore = [\<lparr>l_item = ''c1'', l_tag = ''t1'', l_user = ''u1''\<rparr>] \<and>
   fst (updateCard sampleAuth Succeeds Succeeds failingLinks addedLinks Succeeds
          ''c1'' ''New'' ''Text'' (Some [''t2'']) cardStore)
     = Inr \<lparr>cc_id = ''c1'', cc_user_id = ''u1'', cc_title = ''New'', cc_content = ''Text'',
            cc_tags = []\<rparr> \<and>
   custom_cards (snd (updateCard sampleAuth Succeeds Succeeds failingLinks addedLinks Succeeds
                        ''c1'' ''New'' ''Text'' (Some [''t2'']) cardStore))
     = [\<lparr>c_id = ''c1'', c_user = ''u1'', c_title = ''New'', c_content = ''Text''\<rparr>] \<and>
   fst (deleteCard sampleAuth Succeeds Succeeds (Fails sampleStoreError) ''c1'' cardStore)
     = Inr ()"
proof -
  have ids: "''u1'' \<noteq> []" "''c1'' \<noteq> []" by simp_all
  have au: "user sampleAuth = Some ''u1''" "\<not> userError sampleAuth"
    by (simp_all add: sampleAuth_def)
  have bad: "outcome_error (Fails sampleStoreError) = Some sampleStoreError"
    by (simp add: outcome_error_def)
  have valid: "tci_title sampleCardInput \<noteq> []" "tci_start_date sampleCardInput \<noteq> []"
    by (simp_all add: sampleCardInput_def)
  have cards: "custom_cards cardStore
                 = [\<lparr>c_id = ''c1'', c_user = ''u1'', c_title = ''Old'', c_content = ''Text''\<rparr>]"
              "timeline_card_tags cardStore
                 = [\<lparr>l_item = ''c1'', l_tag = ''t1'', l_user = ''u1''\<rparr>]"
              "emails_table cardStore = [\<lparr>em_id = ''m1'', em_user = ''u1''\<rparr>]"
    by (simp_all add: cardStore_def sampleStore_def)
  have row: "find (\<lambda>r. c_id r = ''c1'' \<and> c_user r = ''u1'') (custom_cards cardStore)
               = Some \<lparr>c_id = ''c1'', c_user = ''u1'', c_title = ''Old'', c_content = ''Text''\<rparr>"
    unfolding cards by simp
  have norow: "find (\<lambda>r. em_id r = ''c1'' \<and> em_user r = ''u1'') (emails_table cardStore) = None"
    unfolding cards by simp
  have lo: "\<forall>err. Succeeds \<noteq> Throws err" by simp
  have tag: "length ([] :: Tag list) < 12" "id ''urgent'' \<noteq> []" by simp_all
  have msg: "err_message sampleStoreError = ''permission denied''"
    by (simp add: sampleStoreError_def)
  note t = write_path_failure [OF ids au bad valid,
             where db = cardStore and cardPatch = sampleCardPatch and io = Succeeds
               and lo = Succeeds and tagIds = "[''t2'']" and title = "''New''"
               and content = "''Text''" and ts = Succeeds and ld = failingLinks
               and li = addedLinks and newTags = "Some [''t2'']"
               and pins = "[]" and priorities = "[]" and trim = id and name = "''urgent''"
               and color = "''gray''" and tagType = "''pin''" and tagId = "''t1''"
               and row = "\<lparr>c_id = ''c1'', c_user = ''u1'', c_title = ''Old'',
                            c_content = ''Text''\<rparr>"]
  show ?thesis
    using t row norow lo tag msg cards by simp
qed





subsection \<open>Facts about the tag filter engine\<close>






















text \<open>
  C2 (as stated) fails for the by-tag readers: with an empty selection
  fetchCalendarEventsByTags returns no event at all, although the calendar window holds
  two events.
\<close>

theorem empty_selection_reader_counterexample:
  "fetchCalendarEvents sampleSession sampleListEvents sampleEventTags ''u1'' ''primary''
       ''2024-01-01T00:00:00.000Z'' ''2024-01-01T00:10:00.000Z''
     = Inr [(bareEvent ''e1'')\<lparr>ev_tags := Some [sampleTag ''t1'']\<rparr>,
            (bareEvent ''e2'')\<lparr>ev_tags := Some [sampleTag ''t1'', sampleTag ''t2'']\<rparr>] \<and>
   fetchCalendarEventsByTags sampleAuth sampleSession sampleListEvents sampleEventTags
       ''2024-01-01T00:00:00.000Z'' ''2024-01-01T00:10:00.000Z'' [] ModeAny = Inr []"
  by (simp add: fetchCalendarEvents_def getCalendarAccessToken_def sampleSession_def truthy_def
        sampleListEvents_def ok_def fetchCalendarEventTagsForEventIds_def sampleEventTags_def
        mergeEventTags_def bareEvent_def Let_def fetchCalendarEventsByTags_def sampleAuth_def)

text \<open>
  C2 (amended). On the project page (filteredCardsForDisplay) an empty tag selection
  applies no tag filter: with an empty search term the card list is returned unchanged,
  same items in the same order. The by-tag readers of a signed-in user
  (fetchEmailsByTags, fetchCalendarEventsByTags) return the empty list for an empty
  selection, without any request.
\<close>

theorem empty_selection:
  assumes "user auth = Some uid"
  shows "filteredCardsForDisplay lower cards [] [] mode = cards \<and>
         fetchEmailsByTags auth emailsQuery sess getMessage lower [] mode = ([], Inr []) \<and>
         fetchCalendarEventsByTags auth sess listEvents eventTagsQuery timeMin timeMax [] mode
           = Inr []"
  using assms
  by (simp add: filteredCardsForDisplay_def matchesSearch_def fetchEmailsByTags_def
                fetchCalendarEventsByTags_def)

theorem empty_selection_witness:
  "filteredCardsForDisplay id sampleCards [] [] ModeAll = sampleCards \<and>
   fetchEmailsByTags sampleAuth sampleEmailsQuery sampleSession expiredMessages id [] ModeAll
     = ([], Inr []) \<and>
   fetchCalendarEventsByTags sampleAuth sampleSession sampleListEvents sampleEventTags
       ''2024-01-01T00:00:00.000Z'' ''2024-01-01T00:10:00.000Z'' [] ModeAll = Inr []"
proof -
  have au: "user sampleAuth = Some ''u1''" by (simp add: sampleAuth_def)
  show ?thesis using empty_selection [OF au] by simp
qed

subsection \<open>Facts about the email list view\<close>





lemma catch_fields:
  "pageToken (catchBlock err s) = pageToken s"
  "nextPageTokenS (catchBlock err s) = nextPageTokenS s"
  "prevPageTokens (catchBlock err s) = prevPageTokens s"
  "emailCache (catchBlock err s) = emailCache s"
  "selectedEmails (catchBlock err s) = selectedEmails s"
  by (simp_all add: catchBlock_def Let_def)

lemma finally_fields:
  "pageToken (finallyBlock a s) = pageToken s"
  "nextPageTokenS (finallyBlock a s) = nextPageTokenS s"
  "prevPageTokens (finallyBlock a s) = prevPageTokens s"
  "emailCache (finallyBlock a s) = emailCache s"
  "selectedEmails (finallyBlock a s) = selectedEmails s"
  by (simp_all add: finallyBlock_def)

lemma update_fields:
  "pageToken (updateState p c r fc s) = pageToken s"
  "nextPageTokenS (updateState p c r fc s) = nextPageTokenS s"
  "prevPageTokens (updateState p c r fc s) = prevPageTokens s"
  "emailCache (updateState p c r fc s) = fc"
  by (simp_all add: updateState_def finally_fields clearSelectionIfChanged_def)

lemma common_paging:
  "pageToken (fst (commonLogic env uid p c ids s)) = pageToken s \<and>
   nextPageTokenS (fst (commonLogic env uid p c ids s)) = nextPageTokenS s \<and>
   prevPageTokens (fst (commonLogic env uid p c ids s)) = prevPageTokens s"
  unfolding commonLogic_def Let_def
  by (simp add: catch_fields finally_fields update_fields split: prod.splits sum.splits)

lemma async_paging:
  assumes "viewMode p \<noteq> Paged"
  shows "pageToken (fst (loadDataAsync env uid p c s)) = pageToken s \<and>
         nextPageTokenS (fst (loadDataAsync env uid p c s)) = nextPageTokenS s \<and>
         prevPageTokens (fst (loadDataAsync env uid p c s)) = prevPageTokens s"
proof -
  consider (multi) "isNewTagFilterView p"
    | (search) "\<not> isNewTagFilterView p" "isSearchView p"
    | (tag) "\<not> isNewTagFilterView p" "\<not> isSearchView p" "isTagView p"
    using assms by (auto simp: viewMode_def split: if_splits)
  then show ?thesis
  proof cases
    case multi
    then show ?thesis
      unfolding loadDataAsync_def Let_def
      by (simp add: catch_fields finally_fields update_fields split: prod.splits sum.splits)
  next
    case search
    then show ?thesis
      unfolding loadDataAsync_def Let_def
      by (simp add: catch_fields finally_fields common_paging split: sum.splits)
  next
    case tag
    then show ?thesis
      unfolding loadDataAsync_def Let_def
      by (simp add: catch_fields finally_fields common_paging split: sum.splits)
  qed
qed

lemma sync_fields:
  "emailCache (fst (loadDataSync p s)) = emailCache s"
  "selectedEmails (fst (loadDataSync p s)) = selectedEmails s"
  "pageTokenRef (fst (loadDataSync p s)) = pageTokenRef s"
  by (simp_all add: loadDataSync_def Let_def)

lemma sync_non_paged:
  assumes "viewMode p \<noteq> Paged" and "\<not> truthy (p_threadId p)"
  shows "snd (loadDataSync p s)"
    and "pageToken (fst (loadDataSync p s)) = Null"
    and "nextPageTokenS (fst (loadDataSync p s)) = None"
    and "prevPageTokens (fst (loadDataSync p s)) = []"
  using assms by (auto simp: loadDataSync_def Let_def viewMode_def split: if_splits)

lemma full_requested: "set (fst (fetchFullEmailDetails sess gm ids)) \<subseteq> set ids"
  by (auto simp: fetchFullEmailDetails_def split: sum.splits if_splits)

lemma common_requests:
  "set (snd (commonLogic env uid p c ids s)) \<subseteq> {i. emailCache c i = None}"
proof -
  have "set (fst (fetchFullEmailDetails (en_session env) (en_getMessage env)
                   (filter (\<lambda>i. emailCache c i = None) ids))) \<subseteq> {i. emailCache c i = None}"
    using full_requested[of "en_session env" "en_getMessage env"
                            "filter (\<lambda>i. emailCache c i = None) ids"]
    by auto
  then show ?thesis
    unfolding commonLogic_def Let_def
    by (auto split: prod.splits sum.splits if_splits)
qed

lemma async_requests:
  assumes "viewMode p \<noteq> MultiTagView"
  shows "set (snd (loadDataAsync env uid p c s)) \<subseteq> {i. emailCache c i = None}"
proof -
  have nm: "\<not> isNewTagFilterView p"
    using assms by (auto simp: viewMode_def split: if_splits)
  show ?thesis
    unfolding loadDataAsync_def Let_def
    using common_requests
    by (simp add: nm split: sum.splits)
qed

lemma merge_cache: "snd (processAndMergeEmails h ids fetched supa cache) =
    cache ++ mapOfEntries (map (\<lambda>msg. (m_id msg,
               emailItemOfMessage h (mapOfEntries (map (\<lambda>d. (sd_email_id d, d)) supa)) msg)) fetched)"
  by (simp add: processAndMergeEmails_def Let_def)

lemma dom_add_left: "m x = Some y \<Longrightarrow> \<exists>z. (m ++ n) x = Some z"
  by (cases "n x") (simp_all add: map_add_def)

lemma common_cache:
  assumes "emailCache s = emailCache c" and "emailCache c x = Some y"
  shows "\<exists>z. emailCache (fst (commonLogic env uid p c ids s)) x = Some z"
  unfolding commonLogic_def Let_def
  using assms
  by (simp add: catch_fields finally_fields update_fields merge_cache case_prod_beta dom_add_left
           split: sum.splits)

lemma async_cache:
  assumes "emailCache s = emailCache c" and "emailCache c x = Some y"
  shows "\<exists>z. emailCache (fst (loadDataAsync env uid p c s)) x = Some z"
proof -
  consider (multi) "isNewTagFilterView p"
    | (search) "\<not> isNewTagFilterView p" "isSearchView p"
    | (tag) "\<not> isNewTagFilterView p" "\<not> isSearchView p" "isTagView p"
    | (paged) "\<not> isNewTagFilterView p" "\<not> isSearchView p" "\<not> isTagView p"
    by blast
  then show ?thesis
  proof cases
    case multi
    then show ?thesis
      unfolding loadDataAsync_def Let_def
      using assms
      by (simp add: catch_fields finally_fields update_fields case_prod_beta dom_add_left
               split: sum.splits)
  next
    case search
    then show ?thesis
      unfolding loadDataAsync_def Let_def
      using assms
      by (simp add: catch_fields finally_fields common_cache split: sum.splits)
  next
    case tag
    then show ?thesis
      unfolding loadDataAsync_def Let_def
      using assms
      by (simp add: catch_fields finally_fields common_cache split: sum.splits)
  next
    case paged
    then show ?thesis
      unfolding loadDataAsync_def Let_def
      using assms
      by (simp add: catch_fields finally_fields common_cache split: sum.splits)
  qed
qed

lemma effect_authenticated:
  assumes "truthy userId"
  shows "emailsEffect env True userId p s =
           (if snd (loadDataSync p s)
            then loadDataAsync env (str_of userId) p s
                   ((fst (loadDataSync p s))\<lparr>pageTokenRef := pageToken s,
                          activeFilterNameRef := activeFilterName p,
                          searchQueryRef := p_q p,
                          filterTagsParamRef := p_tags p\<rparr>)
            else ((fst (loadDataSync p s))\<lparr>pageTokenRef := pageToken s,
                          activeFilterNameRef := activeFilterName p,
                          searchQueryRef := p_q p,
                          filterTagsParamRef := p_tags p\<rparr>, []))"
  using assms by (simp add: emailsEffect_def case_prod_beta Let_def)


lemma list_token:
  "fetchEmailMetadataPage sess lm pt n = Inr r \<Longrightarrow> \<exists>tok. getGmailAccessToken sess = Inr tok"
  "fetchImportantEmailMetadataPage sess lm pt n = Inr r \<Longrightarrow> \<exists>tok. getGmailAccessToken sess = Inr tok"
  by (cases "getGmailAccessToken sess";
      simp add: fetchEmailMetadataPage_def fetchImportantEmailMetadataPage_def)+

lemma common_shown:
  assumes tok: "getGmailAccessToken (en_session env) = Inr tok"
      and na: "\<forall>k. \<not> en_aborted env k"
  shows "allEmails (fst (commonLogic env uid p c ids s))
           = List.map_filter (emailCache (fst (commonLogic env uid p c ids s))) ids"
proof -
  have upd: "allEmails (updateState p c r fc s') = r" "emailCache (updateState p c r fc s') = fc"
    for r fc s'
    by (simp_all add: updateState_def finallyBlock_def clearSelectionIfChanged_def)
  have full: "fetchFullEmailDetails (en_session env) (en_getMessage env) xs
                = (if xs = [] then [] else xs,
                   Inr (if xs = [] then [] else List.map_filter (detailRequest (en_getMessage env) tok) xs))" for xs
    by (simp add: fetchFullEmailDetails_def tok)
  show ?thesis
    unfolding commonLogic_def Let_def full
    using na
    by (simp add: upd processAndMergeEmails_def Let_def List.map_filter_simps case_prod_beta)
qed

lemma paged_shows_first_page:
  assumes pt: "pageToken s = Null" and prev: "prevPageTokens s = []"
      and v: "viewMode p = Paged" and th: "\<not> truthy (p_threadId p)" and uid: "truthy userId"
      and na: "\<forall>k. \<not> en_aborted env k"
      and r: "(if activeTab s = ''important''
               then fetchImportantEmailMetadataPage (en_session env) (en_listMessages env) Null 20
               else fetchEmailMetadataPage (en_session env) (en_listMessages env) Null 20) = Inr r"
  shows "allEmails (fst (emailsEffect env True userId p s))
           = List.map_filter (emailCache (fst (emailsEffect env True userId p s)))
               (map md_id (messages r)) \<and>
         nextPageTokenS (fst (emailsEffect env True userId p s))
           = (if truthy (nextPageToken r) then nextPageToken r else None) \<and>
         pageToken (fst (emailsEffect env True userId p s)) = Null \<and>
         prevPageTokens (fst (emailsEffect env True userId p s)) = []"
proof -
  have vs: "\<not> isNewTagFilterView p" "\<not> isSearchView p" "\<not> isTagView p"
    using v by (auto simp: viewMode_def split: if_splits)
  obtain tok where tok: "getGmailAccessToken (en_session env) = Inr tok"
    using r list_token[of "en_session env" "en_listMessages env" Null 20 r]
    by (auto split: if_splits)
  define s2 where "s2 = (fst (loadDataSync p s))\<lparr>pageTokenRef := pageToken s,
                          activeFilterNameRef := activeFilterName p,
                          searchQueryRef := p_q p,
                          filterTagsParamRef := p_tags p\<rparr>"
  have sy: "snd (loadDataSync p s)" "pageToken s2 = Null" "prevPageTokens s2 = []"
    using th vs pt prev by (auto simp: s2_def loadDataSync_def Let_def)
  define s3 where "s3 = (let s1 = s2\<lparr>nextPageTokenS := (if truthy (nextPageToken r)
                                                then nextPageToken r else None)\<rparr>
                          in if messages r = [] then s1\<lparr>allEmails := []\<rparr> else s1)"
  have s3f: "pageToken s3 = Null" "prevPageTokens s3 = []"
            "nextPageTokenS s3 = (if truthy (nextPageToken r) then nextPageToken r else None)"
    using sy by (simp_all add: s3_def Let_def)
  have eff0: "emailsEffect env True userId p s = loadDataAsync env (str_of userId) p s s2"
    using sy(1) by (simp only: effect_authenticated[OF uid] s2_def if_True)
  have eff: "emailsEffect env True userId p s
               = commonLogic env (str_of userId) p s (map md_id (messages r)) s3"
    unfolding eff0 using r na
    by (simp add: loadDataAsync_def vs pt s3_def Let_def split: if_splits)
  show ?thesis
    unfolding eff
    using common_shown[OF tok na] common_paging[of env "str_of userId" p s "map md_id (messages r)" s3]
    by (simp add: s3f)
qed


lemma update_selection:
  assumes "pageTokenRef s = pageToken c" and "activeFilterNameRef s = activeFilterName p"
      and "searchQueryRef s = p_q p" and "filterTagsParamRef s = p_tags p"
  shows "selectedEmails (updateState p c r fc s) = selectedEmails s"
  using assms by (simp add: updateState_def finally_fields clearSelectionIfChanged_def)

lemma common_selection:
  assumes "pageTokenRef s = pageToken c" and "activeFilterNameRef s = activeFilterName p"
      and "searchQueryRef s = p_q p" and "filterTagsParamRef s = p_tags p"
  shows "selectedEmails (fst (commonLogic env uid p c ids s)) = selectedEmails s"
  unfolding commonLogic_def Let_def
  using assms
  by (simp add: catch_fields finally_fields update_selection case_prod_beta split: sum.splits)

lemma async_selection:
  assumes "pageTokenRef s = pageToken c" and "activeFilterNameRef s = activeFilterName p"
      and "searchQueryRef s = p_q p" and "filterTagsParamRef s = p_tags p"
  shows "selectedEmails (fst (loadDataAsync env uid p c s)) = selectedEmails s"
proof -
  consider (multi) "isNewTagFilterView p"
    | (search) "\<not> isNewTagFilterView p" "isSearchView p"
    | (tag) "\<not> isNewTagFilterView p" "\<not> isSearchView p" "isTagView p"
    | (paged) "\<not> isNewTagFilterView p" "\<not> isSearchView p" "\<not> isTagView p"
    by blast
  then show ?thesis
  proof cases
    case multi
    then show ?thesis
      unfolding loadDataAsync_def Let_def
      using assms
      by (simp add: catch_fields finally_fields update_selection case_prod_beta split: sum.splits)
  next
    case search
    then show ?thesis
      unfolding loadDataAsync_def Let_def
      using assms
      by (simp add: catch_fields finally_fields common_selection split: sum.splits)
  next
    case tag
    then show ?thesis
      unfolding loadDataAsync_def Let_def
      using assms
      by (simp add: catch_fields finally_fields common_selection split: sum.splits)
  next
    case paged
    then show ?thesis
      unfolding loadDataAsync_def Let_def
      using assms
      by (simp add: catch_fields finally_fields common_selection split: sum.splits)
  qed
qed




lemma foldl_upd_Some:
  "foldl (\<lambda>m kv. m(fst kv \<mapsto> snd kv)) m0 es k = Some v \<Longrightarrow> (k, v) \<in> set es \<or> m0 k = Some v"
proof (induction es arbitrary: m0)
  case Nil
  then show ?case by simp
next
  case (Cons e es)
  from Cons.prems have "foldl (\<lambda>m kv. m(fst kv \<mapsto> snd kv)) (m0(fst e \<mapsto> snd e)) es k = Some v"
    by (simp only: foldl_Cons)
  then have "(k, v) \<in> set es \<or> (m0(fst e \<mapsto> snd e)) k = Some v"
    by (rule Cons.IH)
  then show ?case
    by (cases "k = fst e") (auto simp: prod_eq_iff)
qed

lemma foldl_upd_dom:
  "dom (foldl (\<lambda>m kv. m(fst kv \<mapsto> snd kv)) m0 es) = dom m0 \<union> fst ` set es"
  by (induction es arbitrary: m0) auto

lemma mapOfEntries_Some: "mapOfEntries es k = Some v \<Longrightarrow> (k, v) \<in> set es"
  using foldl_upd_Some[of Map.empty es k v] by (simp add: mapOfEntries_def)

lemma mapOfEntries_dom: "dom (mapOfEntries es) = fst ` set es"
  using foldl_upd_dom[of Map.empty es] by (simp add: mapOfEntries_def)

lemma map_filter_ids:
  assumes "\<And>i v. i \<in> set xs \<Longrightarrow> f i = Some v \<Longrightarrow> g v = i"
  shows "map g (List.map_filter f xs) = filter (\<lambda>i. f i \<noteq> None) xs"
  using assms
  by (induction xs) (auto simp: List.map_filter_simps split: option.splits)

lemma item_id: "it_id (emailItemOfMessage h sm msg) = m_id msg"
  by (simp add: emailItemOfMessage_def Let_def)

lemma item_tags: "sm (m_id msg) = None \<Longrightarrow> it_tags (emailItemOfMessage h sm msg) = []"
  by (simp add: emailItemOfMessage_def Let_def)

lemma merged_output:
  assumes wk: "\<And>k item. cache k = Some item \<Longrightarrow> it_id item = k"
  shows "map it_id (fst (processAndMergeEmails h ids fetched supa cache)) =
           filter (\<lambda>i. cache i \<noteq> None \<or> i \<in> m_id ` set fetched) ids"
proof -
  define sm where "sm = mapOfEntries (map (\<lambda>d. (sd_email_id d, d)) supa)"
  define new where "new = mapOfEntries (map (\<lambda>msg. (m_id msg, emailItemOfMessage h sm msg)) fetched)"
  have p: "fst (processAndMergeEmails h ids fetched supa cache) = List.map_filter (cache ++ new) ids"
    by (simp add: processAndMergeEmails_def Let_def new_def sm_def)
  have new_id: "it_id v = k" if "new k = Some v" for k v
    using mapOfEntries_Some[OF that[unfolded new_def]] by (auto simp: item_id)
  have keyed: "it_id v = k" if "(cache ++ new) k = Some v" for k v
    using that wk new_id by (auto simp: map_add_Some_iff)
  have dom_new: "dom new = m_id ` set fetched"
    by (simp add: new_def mapOfEntries_dom image_image)
  have present: "(cache ++ new) i \<noteq> None \<longleftrightarrow> cache i \<noteq> None \<or> i \<in> m_id ` set fetched" for i
    using dom_new by (auto simp: map_add_def domIff split: option.splits)
  have "map it_id (List.map_filter (cache ++ new) ids) =
          filter (\<lambda>i. (cache ++ new) i \<noteq> None) ids"
    by (rule map_filter_ids) (rule keyed)
  also have "\<dots> = filter (\<lambda>i. cache i \<noteq> None \<or> i \<in> m_id ` set fetched) ids"
    by (simp only: present)
  finally show ?thesis unfolding p .
qed

lemma map_filter_mem:
  "y \<in> set (List.map_filter f xs) \<Longrightarrow> \<exists>x\<in>set xs. f x = Some y"
  by (induction xs) (auto simp: List.map_filter_simps split: option.splits)

lemma merged_items:
  assumes wk: "\<And>k item. cache k = Some item \<Longrightarrow> it_id item = k"
      and it: "item \<in> set (fst (processAndMergeEmails h ids fetched supa cache))"
  shows "(it_id item \<in> m_id ` set fetched \<longrightarrow>
            (it_id item \<notin> sd_email_id ` set supa \<longrightarrow> it_tags item = []) \<and>
            (it_id item \<in> sd_email_id ` set supa \<longrightarrow>
               (\<exists>d\<in>set supa. sd_email_id d = it_id item \<and> it_tags item = sd_tags d))) \<and>
         (it_id item \<notin> m_id ` set fetched \<longrightarrow> cache (it_id item) = Some item)"
proof -
  define sm where "sm = mapOfEntries (map (\<lambda>d. (sd_email_id d, d)) supa)"
  define new where "new = mapOfEntries (map (\<lambda>msg. (m_id msg, emailItemOfMessage h sm msg)) fetched)"
  have p: "fst (processAndMergeEmails h ids fetched supa cache) = List.map_filter (cache ++ new) ids"
    by (simp add: processAndMergeEmails_def Let_def new_def sm_def)
  from it have "item \<in> set (List.map_filter (cache ++ new) ids)" unfolding p .
  then have "\<exists>x\<in>set ids. (cache ++ new) x = Some item" by (rule map_filter_mem)
  then obtain i where i: "(cache ++ new) i = Some item" by (elim bexE)
  have dom_new: "dom new = m_id ` set fetched"
    by (simp add: new_def mapOfEntries_dom image_image)
  have dom_sm: "dom sm = sd_email_id ` set supa"
    by (simp add: sm_def mapOfEntries_dom image_image)
  show ?thesis
  proof (cases "new i")
    case None
    with i have c: "cache i = Some item" by (simp add: map_add_def)
    then have id: "it_id item = i" by (rule wk)
    have "i \<notin> m_id ` set fetched" using None dom_new by (auto simp: domIff)
    then show ?thesis using c id by simp
  next
    case (Some v)
    with i have v: "new i = Some item" by (simp add: map_add_def)
    then obtain msg where msg: "m_id msg = i" "item = emailItemOfMessage h sm msg" "msg \<in> set fetched"
      using mapOfEntries_Some[OF v[unfolded new_def]] by auto
    have id: "it_id item = i" using msg by (simp add: item_id)
    have tags: "it_tags item = (case sm i of None \<Rightarrow> [] | Some d \<Rightarrow> sd_tags d)"
      using msg by (simp add: emailItemOfMessage_def Let_def)
    have a: "it_tags item = []" if "i \<notin> sd_email_id ` set supa"
      using that dom_sm tags by (auto simp: domIff split: option.splits)
    have b: "\<exists>d\<in>set supa. sd_email_id d = i \<and> it_tags item = sd_tags d"
      if "i \<in> sd_email_id ` set supa"
    proof -
      from that dom_sm obtain d where d: "sm i = Some d" by (auto simp: domIff)
      from mapOfEntries_Some[OF d[unfolded sm_def]] have "d \<in> set supa" "sd_email_id d = i" by auto
      with d tags show ?thesis by auto
    qed
    have "i \<in> m_id ` set fetched" using msg by auto
    then show ?thesis using a b id by simp
  qed
qed


lemmas sample_defs = sampleEnv_def sampleHelpers_def sampleSession_def sampleListMessages_def
  sampleGetMessage_def noSupabaseRows_def noTagged_def neverAborted_def initialState_def noParams_def
  okResponse_def notFound_def sampleMessage_def noMessage_def sampleAuth_def

lemmas model_defs = emailsEffect_def loadDataSync_def loadDataAsync_def commonLogic_def
  updateState_def clearSelectionIfChanged_def finallyBlock_def catchBlock_def
  isNewTagFilterView_def isSearchView_def isTagView_def activeFilterName_def truthy_def str_of_def
  fetchEmailMetadataPage_def fetchImportantEmailMetadataPage_def metadataPageRequest_def token_param_def
  searchGmailMessages_def
  getGmailAccessToken_def ok_def fetchFullEmailDetails_def detailRequest_def detailThen_def detailCatch_def
  fetchSupabaseEmailData_def processAndMergeEmails_def mapOfEntries_def emailItemOfMessage_def getHeader_def
  Let_def

lemma firstPage_eval:
  "pageToken firstPage = Undefined" "nextPageTokenS firstPage = Some ''p2''"
  "prevPageTokens firstPage = []" "pageTokenRef firstPage = Undefined"
  "selectedEmails firstPage = []" "map it_id (allEmails firstPage) = [''m1'', ''m2'']"
  by (simp_all add: firstPage_def okEnv_def okGetMessage_def model_defs sample_defs)

lemmas paged_defs = pagedEnv_def pagedListMessages_def okEnv_def okGetMessage_def searchParams_def
  goToNextPage_def

lemma onSecondPage_eval:
  "pageToken onSecondPage = Token ''p2''" "prevPageTokens onSecondPage = [[]]"
  "map it_id (allEmails onSecondPage) = [''m3'', ''m4'']"
  by (simp_all add: onSecondPage_def paged_defs model_defs sample_defs)

lemma afterSearch_eval:
  "map it_id (allEmails afterSearch) = [''m5'']" "activeTab afterSearch = ''all''"
  "emailCache afterSearch ''m1'' \<noteq> None" "emailCache afterSearch ''m2'' \<noteq> None"
  by (simp_all add: afterSearch_def onSecondPage_def paged_defs model_defs sample_defs)

lemma first_page_eval:
  "fetchEmailMetadataPage (en_session pagedEnv) (en_listMessages pagedEnv) Null 20
     = Inr \<lparr>messages = [\<lparr>md_id = ''m1'', md_threadId = ''th1''\<rparr>,
                          \<lparr>md_id = ''m2'', md_threadId = ''th2''\<rparr>],
             nextPageToken = Some ''p2''\<rparr>"
  by (simp add: paged_defs model_defs sample_defs)


lemma tags_fold_none:
  assumes "\<forall>row\<in>set rows. fst row \<noteq> i"
  shows "foldl (\<lambda>tagsByEventId item.
                  case snd item of
                    None \<Rightarrow> tagsByEventId
                  | Some tag \<Rightarrow>
                      if fst item = [] then tagsByEventId
                      else tagsByEventId(fst item \<mapsto>
                             (case tagsByEventId (fst item) of None \<Rightarrow> [] | Some ts \<Rightarrow> ts)
                             @ [tag]))
               m0 rows i = m0 i"
  using assms
proof (induction rows arbitrary: m0)
  case Nil
  then show ?case by simp
next
  case (Cons row rows)
  have ne: "fst row \<noteq> i" and rest: "\<forall>r\<in>set rows. fst r \<noteq> i"
    using Cons.prems by simp_all
  show ?case
    unfolding foldl_Cons
    by (subst Cons.IH[OF rest]) (use ne in \<open>auto split: option.splits\<close>)
qed

lemma event_tags_none:
  assumes "\<forall>rows. q uid ids = QData (Some rows) \<longrightarrow> (\<forall>row\<in>set rows. fst row \<noteq> i)"
  shows "fetchCalendarEventTagsForEventIds q uid ids i = None"
proof (cases "q uid ids")
  case (QData d)
  show ?thesis
  proof (cases d)
    case None
    with QData show ?thesis by (simp add: fetchCalendarEventTagsForEventIds_def)
  next
    case (Some rows)
    with QData assms have "\<forall>row\<in>set rows. fst row \<noteq> i" by simp
    from tags_fold_none[OF this, of Map.empty] QData Some show ?thesis
      by (simp add: fetchCalendarEventTagsForEventIds_def)
  qed
qed (simp_all add: fetchCalendarEventTagsForEventIds_def)

lemma merged_event: "ev_id (mergeEventTags tm e) = ev_id e"
  by (simp add: mergeEventTags_def)

lemma calendar_merge:
  assumes tok: "getCalendarAccessToken sess = Inr tok" and uid: "userId \<noteq> []"
      and resp: "listEvents (EventsWindow calendarId timeMin timeMax) tok = Responded r"
      and okr: "ok r"
  shows "\<exists>evs. fetchCalendarEvents sess listEvents q userId calendarId timeMin timeMax = Inr evs \<and>
           map ev_id evs = map ev_id (case json r of None \<Rightarrow> [] | Some items \<Rightarrow> items) \<and>
           (\<forall>e\<in>set evs. (\<forall>rows. q userId (map ev_id evs) = QData (Some rows) \<longrightarrow>
                                     (\<forall>row\<in>set rows. fst row \<noteq> ev_id e))
                            \<longrightarrow> ev_tags e = Some [])"
proof -
  define items where "items = (case json r of None \<Rightarrow> [] | Some items \<Rightarrow> items)"
  define tm where "tm = fetchCalendarEventTagsForEventIds q userId (map ev_id items)"
  show ?thesis
  proof (cases "items = []")
    case True
    then have "fetchCalendarEvents sess listEvents q userId calendarId timeMin timeMax = Inr []"
      using tok uid resp okr by (simp add: fetchCalendarEvents_def items_def)
    then show ?thesis using True by (simp add: items_def[symmetric])
  next
    case False
    then have res: "fetchCalendarEvents sess listEvents q userId calendarId timeMin timeMax
                 = Inr (map (mergeEventTags tm) items)"
      using tok uid resp okr
      by (simp add: fetchCalendarEvents_def items_def[symmetric] tm_def Let_def)
    have ids: "map ev_id (map (mergeEventTags tm) items) = map ev_id items"
      by (simp add: merged_event)
    have tags: "ev_tags e = Some []"
      if "e \<in> set (map (mergeEventTags tm) items)"
         "\<forall>rows. q userId (map ev_id items) = QData (Some rows) \<longrightarrow>
                  (\<forall>row\<in>set rows. fst row \<noteq> ev_id e)" for e
    proof -
      from that(1) obtain e0 where e0: "e = mergeEventTags tm e0" by auto
      have "tm (ev_id e) = None" unfolding tm_def by (rule event_tags_none) (rule that(2))
      then show ?thesis using e0 by (simp add: mergeEventTags_def)
    qed
    show ?thesis
      unfolding res items_def[symmetric]
      using ids tags by (intro exI[of _ "map (mergeEventTags tm) items"]) (simp only: ids, blast)
  qed
qed


text \<open>
  C3 (as stated) fails for the email page fetch in two ways. The remote list returns m1
  and m2, the detail request for m2 is answered 404, and the load completes without an
  error but shows m1 only: m2 does not appear in the merged output. And when the first
  page was loaded while m1 carried the tag t1, a later load of that page, at a time when
  the store holds no tag association for m1 any more, still shows m1 with the tag t1:
  the item comes from the cache, and the store data fetched for it is not used.
\<close>

theorem email_merge_not_total_counterexample:
  "map_sum id (\<lambda>r. map md_id (messages r))
     (fetchEmailMetadataPage sampleSession sampleListMessages Undefined 20) = Inr [''m1'', ''m2''] \<and>
   map it_id (allEmails (fst (emailsEffect sampleEnv True (Some ''u1'') noParams initialState)))
     = [''m1''] \<and>
   errorS (fst (emailsEffect sampleEnv True (Some ''u1'') noParams initialState)) = None \<and>
   map it_tags (allEmails taggedFirstPage) = [[sampleTag ''t1''], []] \<and>
   fetchSupabaseEmailData (en_supabaseQuery okEnv) ''u1'' [''m1'', ''m2''] = [] \<and>
   map it_id (allEmails (fst (emailsEffect okEnv True (Some ''u1'') noParams taggedFirstPage)))
     = [''m1'', ''m2''] \<and>
   map it_tags (allEmails (fst (emailsEffect okEnv True (Some ''u1'') noParams taggedFirstPage)))
     = [[sampleTag ''t1''], []] \<and>
   errorS (fst (emailsEffect okEnv True (Some ''u1'') noParams taggedFirstPage)) = None"
  by (simp add: taggedFirstPage_def taggedRows_def tagOfLink_def sampleTag_def okEnv_def
                okGetMessage_def model_defs sample_defs List.map_filter_simps)

text \<open>
  C3 (amended). For every successful calendar window fetch the tag merge is total: every
  event of the remote list appears in the output exactly once, in the order of the
  remote list, and an event with no tag-association rows gets an empty tag list. For the
  email page the merge lists, in the order of the remote list and once per listed id,
  exactly the messages that are already cached or whose details were fetched (all of
  them when every uncached message was fetched). A listed message whose details were
  fetched carries the tags of its row in the store data, and the empty tag list when
  the store data has no row for it; a listed message that was not fetched is the item
  the cache holds for it, with the tags it was cached with. The merge never fails.
\<close>

theorem tag_merge:
  assumes tok: "getCalendarAccessToken sess = Inr tok" and uid: "userId \<noteq> []"
      and resp: "listEvents (EventsWindow calendarId timeMin timeMax) tok = Responded r"
      and okr: "ok r"
      and wk: "\<forall>k item. cache k = Some item \<longrightarrow> it_id item = k"
  shows "(\<exists>evs. fetchCalendarEvents sess listEvents eventTagsQuery userId calendarId timeMin timeMax
                  = Inr evs \<and>
            map ev_id evs = map ev_id (case json r of None \<Rightarrow> [] | Some items \<Rightarrow> items) \<and>
            (\<forall>e\<in>set evs. (\<forall>rows. eventTagsQuery userId (map ev_id evs) = QData (Some rows) \<longrightarrow>
                                      (\<forall>row\<in>set rows. fst row \<noteq> ev_id e))
                             \<longrightarrow> ev_tags e = Some [])) \<and>
         map it_id (fst (processAndMergeEmails h ids fetched supa cache))
           = filter (\<lambda>i. cache i \<noteq> None \<or> i \<in> m_id ` set fetched) ids \<and>
         ((\<forall>i\<in>set ids. cache i \<noteq> None \<or> i \<in> m_id ` set fetched) \<longrightarrow>
            map it_id (fst (processAndMergeEmails h ids fetched supa cache)) = ids) \<and>
         (\<forall>item\<in>set (fst (processAndMergeEmails h ids fetched supa cache)).
            (it_id item \<in> m_id ` set fetched \<longrightarrow>
               (it_id item \<notin> sd_email_id ` set supa \<longrightarrow> it_tags item = []) \<and>
               (it_id item \<in> sd_email_id ` set supa \<longrightarrow>
                  (\<exists>d\<in>set supa. sd_email_id d = it_id item \<and> it_tags item = sd_tags d))) \<and>
            (it_id item \<notin> m_id ` set fetched \<longrightarrow> cache (it_id item) = Some item))"
proof -
  have out: "map it_id (fst (processAndMergeEmails h ids fetched supa cache))
               = filter (\<lambda>i. cache i \<noteq> None \<or> i \<in> m_id ` set fetched) ids"
    using wk by (intro merged_output) blast
  have total: "map it_id (fst (processAndMergeEmails h ids fetched supa cache)) = ids"
    if "\<forall>i\<in>set ids. cache i \<noteq> None \<or> i \<in> m_id ` set fetched"
    unfolding out using that by (simp only: filter_True)
  have keyed: "\<And>k item. cache k = Some item \<Longrightarrow> it_id item = k"
    using wk by blast
  have items: "\<forall>item\<in>set (fst (processAndMergeEmails h ids fetched supa cache)).
            (it_id item \<in> m_id ` set fetched \<longrightarrow>
               (it_id item \<notin> sd_email_id ` set supa \<longrightarrow> it_tags item = []) \<and>
               (it_id item \<in> sd_email_id ` set supa \<longrightarrow>
                  (\<exists>d\<in>set supa. sd_email_id d = it_id item \<and> it_tags item = sd_tags d))) \<and>
            (it_id item \<notin> m_id ` set fetched \<longrightarrow> cache (it_id item) = Some item)"
    using merged_items[of cache _ h ids fetched supa, OF keyed] by blast
  have cal: "\<exists>evs. fetchCalendarEvents sess listEvents eventTagsQuery userId calendarId timeMin timeMax
                  = Inr evs \<and>
            map ev_id evs = map ev_id (case json r of None \<Rightarrow> [] | Some items \<Rightarrow> items) \<and>
            (\<forall>e\<in>set evs. (\<forall>rows. eventTagsQuery userId (map ev_id evs) = QData (Some rows) \<longrightarrow>
                                      (\<forall>row\<in>set rows. fst row \<noteq> ev_id e))
                             \<longrightarrow> ev_tags e = Some [])"
    by (rule calendar_merge[where listEvents = listEvents and q = eventTagsQuery,
                            OF tok uid resp okr])
  from cal out total items show ?thesis by (intro conjI impI)
qed

theorem tag_merge_witness:
  "(\<exists>evs. fetchCalendarEvents sampleSession sampleListEvents sampleEventTags ''u1'' ''primary''
            ''2024-01-01T00:00:00.000Z'' ''2024-01-01T00:10:00.000Z'' = Inr evs \<and>
          map ev_id evs = [''e1'', ''e2'']) \<and>
   it_tags cachedM1 = [sampleTag ''t1''] \<and>
   map it_id (fst (processAndMergeEmails sampleHelpers [''m1'', ''m2'', ''m3'']
                     [sampleMessage ''m2'', sampleMessage ''m3'']
                     [sampleStoreData\<lparr>sd_email_id := ''m3''\<rparr>] [''m1'' \<mapsto> cachedM1]))
     = [''m1'', ''m2'', ''m3''] \<and>
   map it_tags (fst (processAndMergeEmails sampleHelpers [''m1'', ''m2'', ''m3'']
                       [sampleMessage ''m2'', sampleMessage ''m3'']
                       [sampleStoreData\<lparr>sd_email_id := ''m3''\<rparr>] [''m1'' \<mapsto> cachedM1]))
     = [[sampleTag ''t1''], [], [sampleTag ''t1'']]"
proof -
  have tok: "getCalendarAccessToken sampleSession = Inr (Some ''ya29.sample'')"
    by (simp add: getCalendarAccessToken_def sampleSession_def truthy_def)
  have uid: "''u1'' \<noteq> []" by simp
  have resp: "sampleListEvents (EventsWindow ''primary'' ''2024-01-01T00:00:00.000Z''
                                  ''2024-01-01T00:10:00.000Z'') (Some ''ya29.sample'')
                = Responded \<lparr>status = 200, statusText = ''OK'', errorMessage = None,
                             json = Some [bareEvent ''e1'', bareEvent ''e2'']\<rparr>"
    by (simp add: sampleListEvents_def)
  have okr: "ok \<lparr>status = 200, statusText = ''OK'', errorMessage = None,
                 json = Some [bareEvent ''e1'', bareEvent ''e2'']\<rparr>"
    by (simp add: ok_def)
  have c1: "it_id cachedM1 = ''m1''" "it_tags cachedM1 = [sampleTag ''t1'']"
    by (simp_all add: cachedM1_def emailItemOfMessage_def mapOfEntries_def sampleStoreData_def
                      sampleMessage_def Let_def)
  define cache where "cache = [''m1'' \<mapsto> cachedM1]"
  have cm: "cache ''m1'' = Some cachedM1" "cache ''m2'' = None" "cache ''m3'' = None"
    by (simp_all add: cache_def)
  have wk: "\<forall>k item. cache k = Some item \<longrightarrow> it_id item = k"
    using c1(1) by (auto simp: cache_def split: if_splits)
  note t = tag_merge [where listEvents = sampleListEvents and eventTagsQuery = sampleEventTags
             and h = sampleHelpers and ids = "[''m1'', ''m2'', ''m3'']"
             and fetched = "[sampleMessage ''m2'', sampleMessage ''m3'']"
             and supa = "[sampleStoreData\<lparr>sd_email_id := ''m3''\<rparr>]",
             OF tok uid resp okr wk]
  have ids: "m_id (sampleMessage k) = k" for k by (simp add: sampleMessage_def)
  have cal: "\<exists>evs. fetchCalendarEvents sampleSession sampleListEvents sampleEventTags ''u1''
                     ''primary'' ''2024-01-01T00:00:00.000Z'' ''2024-01-01T00:10:00.000Z''
                   = Inr evs \<and> map ev_id evs = [''e1'', ''e2'']"
  proof -
    from t [THEN conjunct1] obtain evs where
      "fetchCalendarEvents sampleSession sampleListEvents sampleEventTags ''u1''
         ''primary'' ''2024-01-01T00:00:00.000Z'' ''2024-01-01T00:10:00.000Z'' = Inr evs"
      "map ev_id evs = map ev_id [bareEvent ''e1'', bareEvent ''e2'']"
      by auto
    then show ?thesis by (simp add: bareEvent_def)
  qed
  have mail: "map it_id (fst (processAndMergeEmails sampleHelpers [''m1'', ''m2'', ''m3'']
                     [sampleMessage ''m2'', sampleMessage ''m3'']
                     [sampleStoreData\<lparr>sd_email_id := ''m3''\<rparr>] cache))
                = [''m1'', ''m2'', ''m3'']"
    using t [THEN conjunct2, THEN conjunct1] by (simp add: ids cm)
  have out: "fst (processAndMergeEmails sampleHelpers [''m1'', ''m2'', ''m3'']
                     [sampleMessage ''m2'', sampleMessage ''m3'']
                     [sampleStoreData\<lparr>sd_email_id := ''m3''\<rparr>] cache)
               = [cachedM1,
                  emailItemOfMessage sampleHelpers
                    (mapOfEntries [(''m3'', sampleStoreData\<lparr>sd_email_id := ''m3''\<rparr>)])
                    (sampleMessage ''m2''),
                  emailItemOfMessage sampleHelpers
                    (mapOfEntries [(''m3'', sampleStoreData\<lparr>sd_email_id := ''m3''\<rparr>)])
                    (sampleMessage ''m3'')]"
    by (simp add: processAndMergeEmails_def Let_def ids sampleStoreData_def mapOfEntries_def
                  List.map_filter_simps map_add_def cm)
  have tags: "map it_tags (fst (processAndMergeEmails sampleHelpers [''m1'', ''m2'', ''m3'']
                       [sampleMessage ''m2'', sampleMessage ''m3'']
                       [sampleStoreData\<lparr>sd_email_id := ''m3''\<rparr>] cache))
     = [[sampleTag ''t1''], [], [sampleTag ''t1'']]"
    using t [THEN conjunct2, THEN conjunct2, THEN conjunct2]
    unfolding out
    by (simp add: c1 ids emailItemOfMessage_def mapOfEntries_def sampleStoreData_def Let_def)
  from cal c1(2) mail tags show ?thesis unfolding cache_def by blast
qed

text \<open>
  C4. In a signed-in session, a load in any non-Paged view (multi-tag filter, search or
  legacy tag view) leaves the page token null, the next-page token empty and the stack
  of prior page tokens empty. A load in the Paged view that follows, and is not
  superseded, resumes from the first page: when the service answers the list request
  that carries no page token, the list shown is that first page (its message ids in the
  order of the answer, each shown as the item the cache then holds for it), the
  next-page token is the one of that answer, the page token stays null and the stack of
  prior page tokens stays empty.
\<close>

theorem non_paged_view_resets_cursor:
  assumes np: "viewMode p \<noteq> Paged" and uid: "truthy userId" and th: "\<not> truthy (p_threadId p)"
  shows "pageToken (fst (emailsEffect env True userId p s)) = Null \<and>
         nextPageTokenS (fst (emailsEffect env True userId p s)) = None \<and>
         prevPageTokens (fst (emailsEffect env True userId p s)) = [] \<and>
         (viewMode p' = Paged \<longrightarrow> \<not> truthy (p_threadId p') \<longrightarrow> (\<forall>k. \<not> en_aborted env' k) \<longrightarrow>
          (if activeTab (fst (emailsEffect env True userId p s)) = ''important''
           then fetchImportantEmailMetadataPage (en_session env') (en_listMessages env') Null 20
           else fetchEmailMetadataPage (en_session env') (en_listMessages env') Null 20) = Inr r \<longrightarrow>
            allEmails (fst (emailsEffect env' True userId p' (fst (emailsEffect env True userId p s))))
              = List.map_filter
                  (emailCache (fst (emailsEffect env' True userId p'
                                      (fst (emailsEffect env True userId p s)))))
                  (map md_id (messages r)) \<and>
            nextPageTokenS (fst (emailsEffect env' True userId p'
                                   (fst (emailsEffect env True userId p s))))
              = (if truthy (nextPageToken r) then nextPageToken r else None) \<and>
            pageToken (fst (emailsEffect env' True userId p'
                              (fst (emailsEffect env True userId p s)))) = Null \<and>
            prevPageTokens (fst (emailsEffect env' True userId p'
                                   (fst (emailsEffect env True userId p s)))) = [])"
proof -
  let ?s' = "fst (emailsEffect env True userId p s)"
  have reset: "pageToken ?s' = Null" "nextPageTokenS ?s' = None" "prevPageTokens ?s' = []"
    using async_paging[OF np] sync_non_paged[OF np th]
    by (simp_all add: effect_authenticated[OF uid])
  show ?thesis
    using reset paged_shows_first_page[OF reset(1) reset(3) _ _ uid, of p' env' r]
    by blast
qed

theorem non_paged_view_resets_cursor_witness:
  "viewMode searchParams = Searching \<and> viewMode noParams = Paged \<and>
   pageToken onSecondPage = Token ''p2'' \<and> prevPageTokens onSecondPage = [[]] \<and>
   map it_id (allEmails onSecondPage) = [''m3'', ''m4''] \<and>
   pageToken afterSearch = Null \<and> nextPageTokenS afterSearch = None \<and>
   prevPageTokens afterSearch = [] \<and> map it_id (allEmails afterSearch) = [''m5''] \<and>
   map it_id (allEmails (fst (emailsEffect pagedEnv True (Some ''u1'') noParams afterSearch)))
     = [''m1'', ''m2''] \<and>
   nextPageTokenS (fst (emailsEffect pagedEnv True (Some ''u1'') noParams afterSearch))
     = Some ''p2'' \<and>
   pageToken (fst (emailsEffect pagedEnv True (Some ''u1'') noParams afterSearch)) = Null \<and>
   prevPageTokens (fst (emailsEffect pagedEnv True (Some ''u1'') noParams afterSearch)) = []"
proof -
  have v: "viewMode searchParams = Searching" "viewMode noParams = Paged"
    by (simp_all add: viewMode_def isNewTagFilterView_def isSearchView_def isTagView_def
                      activeFilterName_def truthy_def noParams_def searchParams_def)
  have np: "viewMode searchParams \<noteq> Paged" by (simp add: v)
  have uid: "truthy (Some ''u1'')" by (simp add: truthy_def)
  have th: "\<not> truthy (p_threadId searchParams)" "\<not> truthy (p_threadId noParams)"
    by (simp_all add: truthy_def noParams_def searchParams_def)
  have na: "\<forall>k. \<not> en_aborted pagedEnv k"
    by (simp add: paged_defs sample_defs)
  have r: "(if activeTab afterSearch = ''important''
            then fetchImportantEmailMetadataPage (en_session pagedEnv) (en_listMessages pagedEnv)
                   Null 20
            else fetchEmailMetadataPage (en_session pagedEnv) (en_listMessages pagedEnv) Null 20)
           = Inr \<lparr>messages = [\<lparr>md_id = ''m1'', md_threadId = ''th1''\<rparr>,
                               \<lparr>md_id = ''m2'', md_threadId = ''th2''\<rparr>],
                  nextPageToken = Some ''p2''\<rparr>"
    by (simp add: afterSearch_eval(2) first_page_eval)
  note t = non_paged_view_resets_cursor [OF np uid th(1), of pagedEnv onSecondPage noParams pagedEnv,
             folded afterSearch_def]
  have reset: "pageToken afterSearch = Null" "nextPageTokenS afterSearch = None"
              "prevPageTokens afterSearch = []"
    using t by blast+
  let ?final = "fst (emailsEffect pagedEnv True (Some ''u1'') noParams afterSearch)"
  have ret: "allEmails ?final = List.map_filter (emailCache ?final) [''m1'', ''m2'']"
             "nextPageTokenS ?final = Some ''p2''" "pageToken ?final = Null"
             "prevPageTokens ?final = []"
    using t [THEN conjunct2, THEN conjunct2, THEN conjunct2, rule_format, OF v(2) th(2) _ r] na
    by (simp_all add: truthy_def)
  have shown: "map it_id (allEmails ?final) = [''m1'', ''m2'']"
    by (simp add: afterSearch_def onSecondPage_def paged_defs model_defs sample_defs)
  show ?thesis
    using v onSecondPage_eval reset afterSearch_eval(1) shown ret(2,3,4) by simp
qed


text \<open>
  C5 (as stated) fails for the refresh: in the search view a manual refresh is ignored;
  the cache keeps the item it holds for m1 and the state is unchanged.
\<close>

theorem refresh_ignored_in_search_view_counterexample:
  "map_option it_id (emailCache firstPage ''m1'') = Some ''m1'' \<and>
   triggerRefresh (noParams\<lparr>p_q := Some ''invoice''\<rparr>) firstPage = firstPage"
  by (simp add: triggerRefresh_def isSearchView_def truthy_def noParams_def
                firstPage_def okEnv_def okGetMessage_def model_defs sample_defs)

text \<open>
  C5 (amended). In a signed-in session, a load in the paged, search or legacy tag view
  issues detail requests only for identifiers absent from the cache; no load removes an
  identifier from the cache; and a manual refresh issued in the paged view while no
  load is in progress empties the cache and resets the page token to the first page,
  while in any other view, or during a load, the refresh changes nothing.
\<close>

theorem cache_discipline:
  assumes uid: "truthy userId"
  shows "(viewMode p \<noteq> MultiTagView \<longrightarrow>
            (\<forall>i\<in>set (snd (emailsEffect env True userId p s)). emailCache s i = None)) \<and>
         (\<forall>i. emailCache s i \<noteq> None \<longrightarrow>
               emailCache (fst (emailsEffect env True userId p s)) i \<noteq> None) \<and>
         (viewMode p = Paged \<longrightarrow> \<not> isLoading s \<longrightarrow>
            emailCache (triggerRefresh p s) = Map.empty \<and> pageToken (triggerRefresh p s) = Null) \<and>
         (viewMode p \<noteq> Paged \<or> isLoading s \<longrightarrow> triggerRefresh p s = s)"
proof -
  let ?s2 = "(fst (loadDataSync p s))\<lparr>pageTokenRef := pageToken s,
                          activeFilterNameRef := activeFilterName p,
                          searchQueryRef := p_q p,
                          filterTagsParamRef := p_tags p\<rparr>"
  have a: "\<forall>i\<in>set (snd (emailsEffect env True userId p s)). emailCache s i = None"
    if "viewMode p \<noteq> MultiTagView"
    using async_requests[OF that, of env "str_of userId" s ?s2]
    by (auto simp: effect_authenticated[OF uid])
  have c2: "emailCache ?s2 = emailCache s" by (simp add: sync_fields)
  have b: "emailCache (fst (emailsEffect env True userId p s)) i \<noteq> None"
    if "emailCache s i \<noteq> None" for i
  proof -
    from that obtain y where y: "emailCache s i = Some y" by blast
    show ?thesis
      using async_cache[OF c2 y, of env "str_of userId" p] y
      by (auto simp: effect_authenticated[OF uid] sync_fields)
  qed
  have views: "viewMode p = Paged \<longleftrightarrow> \<not> isTagView p \<and> \<not> isSearchView p \<and> \<not> isNewTagFilterView p"
    by (simp add: viewMode_def)
  have c: "emailCache (triggerRefresh p s) = Map.empty \<and> pageToken (triggerRefresh p s) = Null"
    if "viewMode p = Paged" "\<not> isLoading s"
    using that by (simp add: triggerRefresh_def views)
  have d: "triggerRefresh p s = s" if "viewMode p \<noteq> Paged \<or> isLoading s"
    using that unfolding views by (auto simp: triggerRefresh_def)
  from a b c d show ?thesis by blast
qed

theorem cache_discipline_witness:
  "truthy (Some ''u1'') \<and> viewMode noParams = Paged \<and> \<not> isLoading firstPage \<and>
   map_option it_id (emailCache firstPage ''m1'') = Some ''m1'' \<and>
   snd (emailsEffect okEnv True (Some ''u1'') noParams firstPage) = [] \<and>
   emailCache (fst (emailsEffect okEnv True (Some ''u1'') noParams firstPage)) ''m1'' \<noteq> None \<and>
   emailCache (triggerRefresh noParams firstPage) = Map.empty \<and>
   pageToken (triggerRefresh noParams firstPage) = Null"
proof -
  have uid: "truthy (Some ''u1'')" by (simp add: truthy_def)
  have v: "viewMode noParams = Paged"
    by (simp add: viewMode_def isNewTagFilterView_def isSearchView_def isTagView_def
                  activeFilterName_def truthy_def noParams_def)
  have l: "\<not> isLoading firstPage"
    by (simp add: firstPage_def okEnv_def okGetMessage_def model_defs sample_defs)
  have m1: "map_option it_id (emailCache firstPage ''m1'') = Some ''m1''"
           "map_option it_id (emailCache firstPage ''m2'') = Some ''m2''"
    by (simp_all add: firstPage_def okEnv_def okGetMessage_def model_defs sample_defs)
  have sub: "set (snd (emailsEffect okEnv True (Some ''u1'') noParams firstPage)) \<subseteq> {''m1'', ''m2''}"
    by (simp add: okEnv_def okGetMessage_def model_defs sample_defs)
  note t = cache_discipline [OF uid, of noParams okEnv firstPage]
  have none: "snd (emailsEffect okEnv True (Some ''u1'') noParams firstPage) = []"
  proof (rule ccontr)
    assume "snd (emailsEffect okEnv True (Some ''u1'') noParams firstPage) \<noteq> []"
    then obtain i where i: "i \<in> set (snd (emailsEffect okEnv True (Some ''u1'') noParams firstPage))"
      by (cases "snd (emailsEffect okEnv True (Some ''u1'') noParams firstPage)") auto
    with t v have "emailCache firstPage i = None" by simp
    moreover from i sub have "i = ''m1'' \<or> i = ''m2''" by auto
    ultimately show False using m1 by auto
  qed
  show ?thesis using uid v l m1(1) none t by auto
qed

text \<open>
  C6 (what the code does). No load of a signed-in user changes the selection, whatever
  changed since the previous load: the check that should clear it compares the current
  page token, legacy filter, search query and tags parameter with the refs, and the refs
  were already set to these current values when \<open>loadData\<close> reached its first
  \<open>await\<close>. The claim fails at the input of the witness below: the first page is
  loaded, m1 and m2 are selected, "next" is clicked, so the page token changes from
  undefined to p2, and the load of the second page leaves m1 and m2 selected.
\<close>

theorem selection_never_cleared_by_load:
  assumes "truthy userId"
  shows "selectedEmails (fst (emailsEffect env True userId p s)) = selectedEmails s"
  by (simp add: effect_authenticated[OF assms] async_selection sync_fields)

theorem selection_survives_page_change:
  "selectedEmails (toggleEmailSelection ''m2'' (toggleEmailSelection ''m1'' firstPage))
     = [''m1'', ''m2''] \<and>
   pageToken (toggleEmailSelection ''m2'' (toggleEmailSelection ''m1'' firstPage)) = Undefined \<and>
   pageToken (goToNextPage (toggleEmailSelection ''m2'' (toggleEmailSelection ''m1'' firstPage)))
     = Token ''p2'' \<and>
   selectedEmails (fst (emailsEffect okEnv True (Some ''u1'') noParams
      (goToNextPage (toggleEmailSelection ''m2'' (toggleEmailSelection ''m1'' firstPage)))))
     = [''m1'', ''m2'']"
proof -
  define s where "s = goToNextPage (toggleEmailSelection ''m2'' (toggleEmailSelection ''m1'' firstPage))"
  have sel: "selectedEmails (toggleEmailSelection ''m2'' (toggleEmailSelection ''m1'' firstPage))
               = [''m1'', ''m2'']"
            "pageToken (toggleEmailSelection ''m2'' (toggleEmailSelection ''m1'' firstPage)) = Undefined"
    by (simp_all add: toggleEmailSelection_def firstPage_eval)
  have st: "pageToken s = Token ''p2''" "selectedEmails s = [''m1'', ''m2'']"
    by (simp_all add: s_def goToNextPage_def toggleEmailSelection_def firstPage_eval truthy_def
                      str_of_def token_param_def)
  have uid: "truthy (Some ''u1'')" by (simp add: truthy_def)
  have keep: "selectedEmails (fst (emailsEffect okEnv True (Some ''u1'') noParams s)) = selectedEmails s"
    by (rule selection_never_cleared_by_load [OF uid])
  show ?thesis using sel st keep unfolding s_def by simp
qed

end
